theory Spec2Isabelle
  imports Complex_Main
begin

section \<open>Python string primitives\<close>

text \<open>
  Messages are Python \<open>str\<close> values.  They are modelled as \<open>string\<close> (a list of
  \<open>char\<close>), one \<open>char\<close> per code point, and the character classes below are the ones
  Python applies to the ASCII range (code points 0 to 127): \<open>str.lower\<close>, \<open>str.upper\<close>,
  \<open>str.isalpha\<close>, \<open>str.isdigit\<close>, \<open>str.strip\<close> and \<open>str.split\<close> without arguments.
  Code points outside ASCII are treated as caseless, non-alphabetic, non-digit and
  non-space; their Unicode classification is outside the model.
\<close>

definition ord :: "char \<Rightarrow> nat" where
  "ord c = of_char c"

definition is_upper :: "char \<Rightarrow> bool" where
  "is_upper c = (65 \<le> ord c \<and> ord c \<le> 90)"

definition is_lower :: "char \<Rightarrow> bool" where
  "is_lower c = (97 \<le> ord c \<and> ord c \<le> 122)"

definition is_alpha :: "char \<Rightarrow> bool" where
  "is_alpha c = (is_upper c \<or> is_lower c)"

definition is_digit :: "char \<Rightarrow> bool" where
  "is_digit c = (48 \<le> ord c \<and> ord c \<le> 57)"

text \<open>Python's ASCII whitespace: TAB, LF, VT, FF, CR, FS, GS, RS, US and the space.\<close>

definition is_space :: "char \<Rightarrow> bool" where
  "is_space c = ((9 \<le> ord c \<and> ord c \<le> 13) \<or> (28 \<le> ord c \<and> ord c \<le> 32))"

text \<open>An upper-case ASCII letter and its lower-case form differ in bit 5 (value 32).\<close>

definition lower_char :: "char \<Rightarrow> char" where
  "lower_char c = (if is_upper c
     then Char (digit0 c) (digit1 c) (digit2 c) (digit3 c) (digit4 c) True (digit6 c) (digit7 c)
     else c)"

definition upper_char :: "char \<Rightarrow> char" where
  "upper_char c = (if is_lower c
     then Char (digit0 c) (digit1 c) (digit2 c) (digit3 c) (digit4 c) False (digit6 c) (digit7 c)
     else c)"

definition lower :: "string \<Rightarrow> string" where
  "lower s = map lower_char s"

definition upper :: "string \<Rightarrow> string" where
  "upper s = map upper_char s"

text \<open>\<open>s.isalpha()\<close> and \<open>s.isdigit()\<close> are false on the empty string.\<close>

definition isalpha :: "string \<Rightarrow> bool" where
  "isalpha s = (s \<noteq> [] \<and> list_all is_alpha s)"

definition isdigit :: "string \<Rightarrow> bool" where
  "isdigit s = (s \<noteq> [] \<and> list_all is_digit s)"

definition strip :: "string \<Rightarrow> string" where
  "strip s = rev (dropWhile is_space (rev (dropWhile is_space s)))"

text \<open>\<open>s.split()\<close>: the maximal runs of non-space characters, in order.\<close>

fun split_ws :: "string \<Rightarrow> string \<Rightarrow> string list" where
  "split_ws [] w = (if w = [] then [] else [rev w])"
| "split_ws (c # cs) w =
     (if is_space c then (if w = [] then split_ws cs [] else rev w # split_ws cs [])
      else split_ws cs (c # w))"

definition split :: "string \<Rightarrow> string list" where
  "split s = split_ws s []"

text \<open>\<open>sep.join(words)\<close>.\<close>

fun join :: "string \<Rightarrow> string list \<Rightarrow> string" where
  "join sep [] = []"
| "join sep [w] = w"
| "join sep (w # v # ws) = w @ sep @ join sep (v # ws)"

text \<open>\<open>word.capitalize()\<close>: first character upper-cased, the rest lower-cased.\<close>

definition capitalize :: "string \<Rightarrow> string" where
  "capitalize w = (case w of [] \<Rightarrow> [] | c # cs \<Rightarrow> upper_char c # lower cs)"

fun startswith :: "string \<Rightarrow> string \<Rightarrow> bool" where
  "startswith s [] = True"
| "startswith [] (p # ps) = False"
| "startswith (c # cs) (p # ps) = (c = p \<and> startswith cs ps)"

text \<open>\<open>sub in s\<close> on strings: \<open>sub\<close> occurs in \<open>s\<close> as a contiguous substring.\<close>

fun contains :: "string \<Rightarrow> string \<Rightarrow> bool" where
  "contains [] sub = (sub = [])"
| "contains (c # cs) sub = (startswith (c # cs) sub \<or> contains cs sub)"

text \<open>\<open>any(word in s for word in words)\<close>.\<close>

definition any_in :: "string list \<Rightarrow> string \<Rightarrow> bool" where
  "any_in words s = list_ex (contains s) words"

text \<open>
  \<open>s.split(sep, 1)\<close> for a non-empty \<open>sep\<close> that occurs in \<open>s\<close> has two parts; the
  second one, the text after the first occurrence of \<open>sep\<close>, is \<open>after_first sep s\<close>.
  When \<open>sep\<close> does not occur the split has one part and the result is \<open>None\<close>.
\<close>

fun after_first :: "string \<Rightarrow> string \<Rightarrow> string option" where
  "after_first sep [] = (if sep = [] then Some [] else None)"
| "after_first sep (c # cs) =
     (if startswith (c # cs) sep then Some (drop (length sep) (c # cs))
      else after_first sep cs)"


section \<open>Complaint categorisation (core/llm\_handler.py)\<close>

datatype ComplaintCategory =
  HARDWARE | SOFTWARE | NETWORK | ACCOUNT | BILLING | SERVICE | OTHER

definition hardware_words :: "string list" where
  "hardware_words = [''laptop'', ''computer'', ''hardware'', ''mouse'', ''keyboard'', ''screen'']"

definition software_words :: "string list" where
  "software_words = [''software'', ''application'', ''app'', ''program'', ''bug'']"

definition network_words :: "string list" where
  "network_words = [''internet'', ''network'', ''wifi'', ''connection'', ''slow'']"

definition account_words :: "string list" where
  "account_words = [''account'', ''login'', ''password'', ''access'']"

definition billing_words :: "string list" where
  "billing_words = [''bill'', ''payment'', ''charge'', ''refund'']"

definition service_words :: "string list" where
  "service_words = [''service'', ''support'', ''help'', ''assistance'']"

definition categorize_complaint :: "string \<Rightarrow> ComplaintCategory" where
  "categorize_complaint complaint_details =
     (let details_lower = lower complaint_details in
      if any_in hardware_words details_lower then HARDWARE
      else if any_in software_words details_lower then SOFTWARE
      else if any_in network_words details_lower then NETWORK
      else if any_in account_words details_lower then ACCOUNT
      else if any_in billing_words details_lower then BILLING
      else if any_in service_words details_lower then SERVICE
      else OTHER)"

text \<open>
  The claim's reading of the same function: the keyword groups in their fixed order,
  and the categories of the groups that a text matches, in that order.
\<close>

definition keyword_groups :: "(ComplaintCategory \<times> string list) list" where
  "keyword_groups =
     [(HARDWARE, hardware_words), (SOFTWARE, software_words), (NETWORK, network_words),
      (ACCOUNT, account_words), (BILLING, billing_words), (SERVICE, service_words)]"

definition matching_groups :: "string \<Rightarrow> ComplaintCategory list" where
  "matching_groups complaint_details =
     map fst (filter (\<lambda>g. any_in (snd g) (lower complaint_details)) keyword_groups)"

definition category_set :: "ComplaintCategory set" where
  "category_set = {HARDWARE, SOFTWARE, NETWORK, ACCOUNT, BILLING, SERVICE, OTHER}"


section \<open>Status updates (database/database.py)\<close>

text \<open>
  The SQLite tables \<open>complaints\<close> and \<open>status_history\<close> are lists of rows in insertion
  order, with the columns the functions read and write (the surrogate \<open>id\<close> columns are
  left out; the columns carry the prefixes \<open>row_\<close> and \<open>h_\<close>).  \<open>CURRENT_TIMESTAMP\<close> is
  the parameter \<open>now\<close>, and \<open>NULL\<close> is \<open>None\<close>.
\<close>

text \<open>
  Modelled from the spec: \<open>models/models.py\<close>, which declares the enum
  \<open>ComplaintStatus\<close>, is not among the sources.  The members are the ones
  \<open>api_server.py\<close> and \<open>rag_system.py\<close> name, the values are \<open>Config.COMPLAINT_STATUSES\<close>.
\<close>

datatype ComplaintStatus =
  REGISTERED | IN_PROGRESS | UNDER_REVIEW | RESOLVED | CLOSED | REJECTED

fun status_value :: "ComplaintStatus \<Rightarrow> string" where
  "status_value REGISTERED = ''Registered''"
| "status_value IN_PROGRESS = ''In Progress''"
| "status_value UNDER_REVIEW = ''Under Review''"
| "status_value RESOLVED = ''Resolved''"
| "status_value CLOSED = ''Closed''"
| "status_value REJECTED = ''Rejected''"

record complaint_row =
  row_complaint_id :: string
  row_name :: string
  row_mobile :: string
  row_complaint_details :: string
  row_category :: string
  row_status :: string
  row_created_at :: nat
  row_updated_at :: nat

record history_row =
  h_complaint_id :: string
  h_old_status :: "string option"
  h_new_status :: string
  h_notes :: "string option"
  h_changed_at :: nat

record database =
  complaints :: "complaint_row list"
  status_history :: "history_row list"

text \<open>\<open>SELECT status FROM complaints WHERE complaint_id = ?\<close> followed by \<open>fetchone()\<close>.\<close>

definition select_status :: "database \<Rightarrow> string \<Rightarrow> string option" where
  "select_status db cid =
     (case filter (\<lambda>r. row_complaint_id r = cid) (complaints db) of
        [] \<Rightarrow> None
      | row # _ \<Rightarrow> Some (row_status row))"

text \<open>\<open>UPDATE complaints SET status = ?, updated_at = CURRENT_TIMESTAMP WHERE complaint_id = ?\<close>.\<close>

definition update_status_rows :: "string \<Rightarrow> string \<Rightarrow> nat \<Rightarrow> complaint_row list \<Rightarrow> complaint_row list" where
  "update_status_rows cid new now rows =
     map (\<lambda>r. if row_complaint_id r = cid then r\<lparr>row_status := new, row_updated_at := now\<rparr> else r) rows"

definition update_complaint_status ::
  "database \<Rightarrow> nat \<Rightarrow> string \<Rightarrow> ComplaintStatus \<Rightarrow> string option \<Rightarrow> bool \<times> database" where
  "update_complaint_status db now cid new_status notes =
     (case select_status db cid of
        None \<Rightarrow> (False, db)
      | Some old \<Rightarrow>
          (True,
           \<lparr>complaints = update_status_rows cid (status_value new_status) now (complaints db),
            status_history = status_history db @
              [\<lparr>h_complaint_id = cid, h_old_status = Some old,
                h_new_status = status_value new_status, h_notes = notes,
                h_changed_at = now\<rparr>]\<rparr>))"

text \<open>The rows of the other complaints.\<close>

definition other_complaints :: "database \<Rightarrow> string \<Rightarrow> complaint_row list" where
  "other_complaints db cid = filter (\<lambda>r. row_complaint_id r \<noteq> cid) (complaints db)"


text \<open>A database with one registered complaint.\<close>

definition example_db :: database where
  "example_db =
     \<lparr>complaints =
        [\<lparr>row_complaint_id = ''CMP9B41CA0F'', row_name = ''John Smith'',
          row_mobile = ''9876543210'', row_complaint_details = ''laptop screen is broken'',
          row_category = ''Hardware'', row_status = ''Registered'',
          row_created_at = 1, row_updated_at = 1\<rparr>],
      status_history =
        [\<lparr>h_complaint_id = ''CMP9B41CA0F'', h_old_status = None,
          h_new_status = ''Registered'', h_notes = Some ''Complaint registered'',
          h_changed_at = 1\<rparr>]\<rparr>"


section \<open>Semantic retrieval (core/rag\_system.py)\<close>

text \<open>
  The embedding model and the cosine similarity are external.  The function below
  takes what they return for a query: \<open>similarities\<close>, one number per entry of the
  knowledge base.  A similarity is a rational number: every finite floating-point
  value is one and comparisons of floats are exact; NaN is outside the model.
\<close>

record kb_entry =
  kb_id :: string
  kb_category :: string
  scenario :: string
  response :: string
  follow_up_questions :: "string list"
  typical_resolution_time :: string

text \<open>\<open>numpy.argsort\<close>: the indices of the array, ordered by ascending value.\<close>

definition argsort :: "rat list \<Rightarrow> nat list" where
  "argsort similarities = sort_key (\<lambda>i. similarities ! i) [0..<length similarities]"

text \<open>
  Python's slice \<open>xs[start:]\<close>: a negative \<open>start\<close> counts from the end, and the
  bound is clamped to the list.
\<close>

definition slice_from :: "int \<Rightarrow> 'a list \<Rightarrow> 'a list" where
  "slice_from start xs =
     (let n = int (length xs);
          lo = (if start < 0 then max 0 (n + start) else min n start)
      in drop (nat lo) xs)"

text \<open>The loop over \<open>top_indices\<close>, appending the entries above the threshold.\<close>

fun relevant_entries :: "kb_entry list \<Rightarrow> rat list \<Rightarrow> nat list \<Rightarrow> (kb_entry \<times> rat) list" where
  "relevant_entries knowledge_base similarities [] = []"
| "relevant_entries knowledge_base similarities (idx # rest) =
     (if similarities ! idx > 3 / 10
      then (knowledge_base ! idx, similarities ! idx) #
           relevant_entries knowledge_base similarities rest
      else relevant_entries knowledge_base similarities rest)"

definition find_relevant_context :: "kb_entry list \<Rightarrow> rat list \<Rightarrow> int \<Rightarrow> (kb_entry \<times> rat) list" where
  "find_relevant_context knowledge_base similarities top_k =
     (let top_indices = rev (slice_from (- top_k) (argsort similarities))
      in relevant_entries knowledge_base similarities top_indices)"

definition similarity_score :: "kb_entry \<times> rat \<Rightarrow> rat" where
  "similarity_score e = snd e"

definition knowledge_base :: "kb_entry list" where
  "knowledge_base =
    [\<lparr>kb_id = ''kb_001'', kb_category = ''Hardware'',
       scenario = ''laptop not working, computer issues, hardware problems'',
       response = ''I understand you're experiencing hardware issues. This is quite common and we'll help resolve it quickly.'',
       follow_up_questions = [''What specific hardware component is causing issues?'', ''When did the problem start?''],
       typical_resolution_time = ''2-3 business days''\<rparr>,
     \<lparr>kb_id = ''kb_002'', kb_category = ''Software'',
       scenario = ''software not working, application crashes, program errors'',
       response = ''Software issues can be frustrating. Let me help you get this resolved.'',
       follow_up_questions = [''Which software/application is having issues?'', ''What error message do you see?''],
       typical_resolution_time = ''1-2 business days''\<rparr>,
     \<lparr>kb_id = ''kb_003'', kb_category = ''Network'',
       scenario = ''internet slow, network problems, connectivity issues, wifi not working'',
       response = ''Network connectivity issues can impact your productivity. We'll prioritize getting this fixed.'',
       follow_up_questions = [''Is this affecting all devices or just one?'', ''When did you first notice the issue?''],
       typical_resolution_time = ''4-6 hours''\<rparr>,
     \<lparr>kb_id = ''kb_004'', kb_category = ''Account'',
       scenario = ''login problems, password issues, account access, authentication'',
       response = ''Account access issues need immediate attention for security reasons.'',
       follow_up_questions = [''What happens when you try to login?'', ''Have you recently changed your password?''],
       typical_resolution_time = ''2-4 hours''\<rparr>,
     \<lparr>kb_id = ''kb_005'', kb_category = ''Billing'',
       scenario = ''billing issues, payment problems, invoice questions, charges'',
       response = ''I'll help you resolve this billing concern. Let me look into the details.'',
       follow_up_questions = [''Which specific charge are you questioning?'', ''Do you have the invoice number?''],
       typical_resolution_time = ''3-5 business days''\<rparr>,
     \<lparr>kb_id = ''kb_006'', kb_category = ''Service'',
       scenario = ''poor service, support issues, customer service problems'',
       response = ''I apologize for any service issues you've experienced. We take this seriously.'',
       follow_up_questions = [''Can you describe the specific service issue?'', ''When did this occur?''],
       typical_resolution_time = ''1-2 business days''\<rparr>]"


section \<open>Conversation memory (frontend/app.py, class ConversationMemory)\<close>

datatype py_error = ValueError

text \<open>
  \<open>max(iterable, key=f)\<close>: the first element, in iteration order, whose key is
  maximal; \<open>ValueError\<close> on an empty iterable.
\<close>

fun max_from :: "('a \<Rightarrow> nat) \<Rightarrow> 'a \<Rightarrow> 'a list \<Rightarrow> 'a" where
  "max_from key best [] = best"
| "max_from key best (x # xs) =
     (if key x > key best then max_from key x xs else max_from key best xs)"

definition py_max :: "('a \<Rightarrow> nat) \<Rightarrow> 'a list \<Rightarrow> py_error + 'a" where
  "py_max key xs = (case xs of [] \<Rightarrow> Inl ValueError | x # rest \<Rightarrow> Inr (max_from key x rest))"

record user_profile =
  profile_name :: "string option"
  profile_mobile :: "string option"

record turn =
  turn_user_message :: string
  turn_bot_response :: string
  turn_intent :: string

record conversation_memory =
  memory_user_profile :: user_profile
  current_intent :: "string option"
  previous_intents :: "string list"
  context_stack :: "turn list"
  sentiment_history :: "string list"
  complaint_categories :: "string list"
  follow_up_needed :: bool

record insights =
  insight_user_profile :: user_profile
  insight_current_intent :: "string option"
  recent_intents :: "string list"
  conversation_length :: nat
  dominant_sentiment :: string
  technical_focus :: "string list"
  needs_follow_up :: bool

text \<open>
  \<open>max(set(history), key=history.count) if history else "neutral"\<close>.
  The order in which a Python set of strings is iterated follows the hashes of the
  strings, which the interpreter seeds anew for every process: the history does not
  determine it.  Every evaluation therefore takes the order in which it iterates
  \<open>set(history)\<close> as an input of its own, \<open>set_order\<close>.
\<close>

definition dominant :: "string list \<Rightarrow> string list \<Rightarrow> py_error + string" where
  "dominant set_order history =
     (if history \<noteq> [] then py_max (count_list history) set_order
      else Inr ''neutral'')"

text \<open>\<open>previous_intents[-3:]\<close>.\<close>

definition get_contextual_insights ::
  "string list \<Rightarrow> conversation_memory \<Rightarrow> py_error + insights" where
  "get_contextual_insights set_order memory =
     (case dominant set_order (sentiment_history memory) of
        Inl e \<Rightarrow> Inl e
      | Inr d \<Rightarrow> Inr
          \<lparr>insight_user_profile = memory_user_profile memory,
           insight_current_intent = current_intent memory,
           recent_intents = slice_from (- 3) (previous_intents memory),
           conversation_length = length (context_stack memory),
           dominant_sentiment = d,
           technical_focus = complaint_categories memory,
           needs_follow_up = follow_up_needed memory\<rparr>)"

text \<open>
  An order in which \<open>set(history)\<close> can be iterated: an enumeration, without
  repetition, of the labels of the history.
\<close>

definition is_set_order :: "string list \<Rightarrow> string list \<Rightarrow> bool" where
  "is_set_order set_order history = (set set_order = set history \<and> distinct set_order)"

text \<open>A most frequent label of a history, and a history that has only one.\<close>

definition most_frequent :: "string list \<Rightarrow> string \<Rightarrow> bool" where
  "most_frequent history x =
     (x \<in> set history \<and> (\<forall>y \<in> set history. count_list history y \<le> count_list history x))"

definition single_most_frequent :: "string list \<Rightarrow> bool" where
  "single_most_frequent history =
     (\<forall>x y. most_frequent history x \<and> most_frequent history y \<longrightarrow> x = y)"

text \<open>The first label of an iteration order whose count is maximal in it.\<close>

definition first_maximal :: "string list \<Rightarrow> string list \<Rightarrow> string \<Rightarrow> bool" where
  "first_maximal set_order history d =
     (\<exists>pre post. set_order = pre @ d # post \<and>
        (\<forall>y \<in> set pre. count_list history y < count_list history d) \<and>
        (\<forall>y \<in> set post. count_list history y \<le> count_list history d))"

text \<open>
  Two memories of different conversations with the same sentiment history, in which
  \<open>negative\<close> is the single most frequent label, and a memory in whose history
  \<open>positive\<close> and \<open>negative\<close> tie.
\<close>

definition memory_a :: conversation_memory where
  "memory_a =
     \<lparr>memory_user_profile = \<lparr>profile_name = Some ''John Smith'', profile_mobile = None\<rparr>,
      current_intent = Some ''register_complaint'',
      previous_intents = [''general_inquiry'', ''register_complaint''],
      context_stack = [],
      sentiment_history = [''positive'', ''negative'', ''negative'', ''neutral''],
      complaint_categories = [''hardware''],
      follow_up_needed = False\<rparr>"

definition memory_b :: conversation_memory where
  "memory_b =
     \<lparr>memory_user_profile = \<lparr>profile_name = None, profile_mobile = Some ''9876543210''\<rparr>,
      current_intent = Some ''check_status'',
      previous_intents = [''check_status''],
      context_stack = [],
      sentiment_history = [''positive'', ''negative'', ''negative'', ''neutral''],
      complaint_categories = [],
      follow_up_needed = False\<rparr>"

definition tie_memory :: conversation_memory where
  "tie_memory =
     \<lparr>memory_user_profile = \<lparr>profile_name = Some ''John Smith'', profile_mobile = None\<rparr>,
      current_intent = Some ''register_complaint'',
      previous_intents = [''general_inquiry'', ''register_complaint''],
      context_stack = [],
      sentiment_history = [''positive'', ''negative'', ''negative'', ''positive'', ''neutral''],
      complaint_categories = [''hardware''],
      follow_up_needed = False\<rparr>"


section \<open>Regular expressions (Python's re module)\<close>

text \<open>
  The patterns of the program use literals, character classes, sequences,
  alternatives, greedy repetitions \<open>{m,n}\<close>, \<open>?\<close>, \<open>+\<close> and \<open>*\<close>, at most one capturing
  group, and the assertions \<open>^\<close>, \<open>$\<close> and \<open>\b\<close>.  A pattern is a term of type \<open>regex\<close>;
  a class item is a character, a range, \<open>\d\<close> or \<open>\s\<close>.
\<close>

datatype cls_item = Single char | Range char char | Digit | Space

datatype regex =
    Lit char
  | Cls "cls_item list"
  | Seq regex regex
  | Alt regex regex
  | Rep regex nat "nat option"
  | Group regex
  | Bol
  | Eol
  | WordB

text \<open>
  A position of the matcher in the subject string: the character before it (\<open>None\<close>
  at the start of the string), the text from it on, and the text of group 1 once the
  group is closed.
\<close>

record mstate =
  prev :: "char option"
  rest :: string
  cap :: "string option"

text \<open>
  A class item against a character.  The flag \<open>ic\<close> is \<open>re.IGNORECASE\<close>: a character
  then matches when one of its case variants does.
\<close>

definition in_range :: "char \<Rightarrow> char \<Rightarrow> char \<Rightarrow> bool" where
  "in_range a b c = (ord a \<le> ord c \<and> ord c \<le> ord b)"

fun item_matches :: "bool \<Rightarrow> cls_item \<Rightarrow> char \<Rightarrow> bool" where
  "item_matches ic (Single a) c = (if ic then lower_char a = lower_char c else a = c)"
| "item_matches ic (Range a b) c =
     (in_range a b c \<or> (ic \<and> (in_range a b (lower_char c) \<or> in_range a b (upper_char c))))"
| "item_matches ic Digit c = is_digit c"
| "item_matches ic Space c = is_space c"

definition is_word :: "char \<Rightarrow> bool" where
  "is_word c = (is_alpha c \<or> is_digit c \<or> c = CHR ''_'')"

text \<open>Consume one character that satisfies \<open>p\<close>.\<close>

definition step_if :: "(char \<Rightarrow> bool) \<Rightarrow> mstate \<Rightarrow> mstate list" where
  "step_if p st =
     (case rest st of
        [] \<Rightarrow> []
      | c # cs \<Rightarrow> if p c then [st\<lparr>prev := Some c, rest := cs\<rparr>] else [])"

text \<open>
  \<open>matches ic r st\<close> lists the positions at which a match of \<open>r\<close> that starts at
  \<open>st\<close> can end, in the order in which Python's backtracking matcher tries them: the
  left alternative before the right one, and for a greedy repetition one more
  iteration before stopping.  The head of the list is the match that \<open>re\<close> reports.
  \<open>rep f lo hi\<close> repeats \<open>f\<close> at least \<open>lo\<close> and at most \<open>hi\<close> times.  An unbounded
  repetition is bounded by the length of the remaining text: the body of every
  unbounded repetition of the program consumes at least one character.
\<close>

fun rep :: "(mstate \<Rightarrow> mstate list) \<Rightarrow> nat \<Rightarrow> nat \<Rightarrow> mstate \<Rightarrow> mstate list" where
  "rep f lo 0 st = (if lo = 0 then [st] else [])"
| "rep f lo (Suc hi) st =
     concat (map (rep f (lo - 1) hi) (f st)) @ (if lo = 0 then [st] else [])"

definition at_word_boundary :: "mstate \<Rightarrow> bool" where
  "at_word_boundary st =
     ((case prev st of None \<Rightarrow> False | Some c \<Rightarrow> is_word c) \<noteq>
      (case rest st of [] \<Rightarrow> False | c # _ \<Rightarrow> is_word c))"

primrec matches :: "bool \<Rightarrow> regex \<Rightarrow> mstate \<Rightarrow> mstate list" where
  "matches ic (Lit a) = step_if (item_matches ic (Single a))"
| "matches ic (Cls items) = step_if (\<lambda>c. list_ex (\<lambda>i. item_matches ic i c) items)"
| "matches ic (Seq a b) = (\<lambda>st. concat (map (matches ic b) (matches ic a st)))"
| "matches ic (Alt a b) = (\<lambda>st. matches ic a st @ matches ic b st)"
| "matches ic (Rep r lo hi) =
     (\<lambda>st. rep (matches ic r) lo (case hi of None \<Rightarrow> max lo (length (rest st)) | Some h \<Rightarrow> h) st)"
| "matches ic (Group r) =
     (\<lambda>st. map (\<lambda>st'. st'\<lparr>cap := Some (take (length (rest st) - length (rest st')) (rest st))\<rparr>)
        (matches ic r st))"
| "matches ic Bol = (\<lambda>st. if prev st = None then [st] else [])"
| "matches ic Eol = (\<lambda>st. if rest st = [] \<or> rest st = [CHR 0x0A] then [st] else [])"
| "matches ic WordB = (\<lambda>st. if at_word_boundary st then [st] else [])"

text \<open>
  A match object: \<open>group()\<close> and \<open>group(1)\<close>.  In every pattern of the program that has
  a group, the group takes part in every match, so \<open>group(1)\<close> is never \<open>None\<close> there;
  \<open>group_1\<close> reads it.
\<close>

record match =
  group0 :: string
  group1 :: "string option"

definition group_1 :: "match \<Rightarrow> string" where
  "group_1 m = (case group1 m of Some g \<Rightarrow> g | None \<Rightarrow> [])"

text \<open>
  \<open>re.match\<close> tries the start of the string only, \<open>re.search\<close> every position from
  left to right, and \<open>re.findall\<close> goes on after the end of each match.  No pattern of
  the program matches the empty string, so after a match \<open>findall\<close> skips the
  characters the match has consumed.
\<close>

definition match_at :: "bool \<Rightarrow> regex \<Rightarrow> char option \<Rightarrow> string \<Rightarrow> match option" where
  "match_at ic r p s =
     (case matches ic r \<lparr>prev = p, rest = s, cap = None\<rparr> of
        [] \<Rightarrow> None
      | st # _ \<Rightarrow> Some \<lparr>group0 = take (length s - length (rest st)) s, group1 = cap st\<rparr>)"

fun search_from :: "bool \<Rightarrow> regex \<Rightarrow> char option \<Rightarrow> string \<Rightarrow> match option" where
  "search_from ic r p [] = match_at ic r p []"
| "search_from ic r p (c # cs) =
     (case match_at ic r p (c # cs) of
        Some m \<Rightarrow> Some m
      | None \<Rightarrow> search_from ic r (Some c) cs)"

definition re_search :: "bool \<Rightarrow> regex \<Rightarrow> string \<Rightarrow> match option" where
  "re_search ic r s = search_from ic r None s"

definition re_match :: "bool \<Rightarrow> regex \<Rightarrow> string \<Rightarrow> match option" where
  "re_match ic r s = match_at ic r None s"

fun findall_from :: "bool \<Rightarrow> regex \<Rightarrow> char option \<Rightarrow> string \<Rightarrow> nat \<Rightarrow> match list" where
  "findall_from ic r p [] skip =
     (if skip = 0 then (case match_at ic r p [] of None \<Rightarrow> [] | Some m \<Rightarrow> [m]) else [])"
| "findall_from ic r p (c # cs) skip =
     (if skip > 0 then findall_from ic r (Some c) cs (skip - 1)
      else (case match_at ic r p (c # cs) of
              None \<Rightarrow> findall_from ic r (Some c) cs 0
            | Some m \<Rightarrow> m # findall_from ic r (Some c) cs (length (group0 m) - 1)))"

definition re_findall :: "bool \<Rightarrow> regex \<Rightarrow> string \<Rightarrow> match list" where
  "re_findall ic r s = findall_from ic r None s 0"

text \<open>Shorthands for writing patterns: sequences, literal strings, alternatives.\<close>

fun seq :: "regex list \<Rightarrow> regex" where
  "seq [r] = r"
| "seq (r # rs) = Seq r (seq rs)"
| "seq [] = Rep (Lit CHR ''x'') 0 (Some 0)"

definition str :: "string \<Rightarrow> regex" where
  "str s = seq (map Lit s)"

fun alt :: "regex list \<Rightarrow> regex" where
  "alt [r] = r"
| "alt (r # rs) = Alt r (alt rs)"
| "alt [] = Cls []"

text \<open>\<open>r?\<close>, \<open>r+\<close> and \<open>r*\<close>.\<close>

definition opt :: "regex \<Rightarrow> regex" where
  "opt r = Rep r 0 (Some 1)"

definition plus :: "regex \<Rightarrow> regex" where
  "plus r = Rep r 1 None"

definition star :: "regex \<Rightarrow> regex" where
  "star r = Rep r 0 None"

text \<open>\<open>re.sub(r'[-.\s()]', '', s)\<close> and \<open>re.sub(r'[-.\s\(\)]', '', s)\<close>.\<close>

definition is_separator :: "char \<Rightarrow> bool" where
  "is_separator c = (c = CHR ''-'' \<or> c = CHR ''.'' \<or> is_space c \<or> c = CHR ''('' \<or> c = CHR '')'')"

definition remove_separators :: "string \<Rightarrow> string" where
  "remove_separators s = filter (\<lambda>c. \<not> is_separator c) s"

text \<open>Python's truth value of an optional string, and \<open>a or b\<close> on them.\<close>

definition truthy :: "string option \<Rightarrow> bool" where
  "truthy v = (case v of None \<Rightarrow> False | Some s \<Rightarrow> s \<noteq> [])"

definition or_else :: "string option \<Rightarrow> string \<Rightarrow> string" where
  "or_else v d = (case v of None \<Rightarrow> d | Some s \<Rightarrow> if s \<noteq> [] then s else d)"


section \<open>Validators (frontend/app.py)\<close>

text \<open>\<open>\d\<close>, \<open>[-.\s]\<close> and the letters.\<close>

definition digit :: regex where
  "digit = Cls [Digit]"

definition dash_dot_space :: regex where
  "dash_dot_space = Cls [Single CHR ''-'', Single CHR ''.'', Space]"

definition letter :: regex where
  "letter = Cls [Range CHR ''a'' CHR ''z'', Range CHR ''A'' CHR ''Z'']"

definition letter_or_space :: regex where
  "letter_or_space = Cls [Range CHR ''a'' CHR ''z'', Range CHR ''A'' CHR ''Z'', Space]"

text \<open>\<open>^\+?[1-9]\d{9,14}$\<close>\<close>

definition mobile_format :: regex where
  "mobile_format =
     seq [Bol, opt (Lit CHR ''+''), Cls [Range CHR ''1'' CHR ''9''], Rep digit 9 (Some 14), Eol]"

definition validate_mobile :: "string \<Rightarrow> bool" where
  "validate_mobile mobile = (re_match False mobile_format (strip mobile) \<noteq> None)"

definition validate_name :: "string \<Rightarrow> bool" where
  "validate_name name0 =
     (let name = strip name0 in
      if length name < 2 \<or> length name > 50 then False
      else if \<not> list_ex is_alpha name then False
      else if lower name \<in> set [''help'', ''what'', ''yes'', ''no'', ''ok''] then False
      else True)"


section \<open>Extraction and intent detection (frontend/app.py)\<close>

text \<open>
  The dictionary of extracted fields: an absent key is \<open>None\<close>.
\<close>

record extracted =
  e_mobile :: "string option"
  e_name :: "string option"
  e_complaint_id :: "string option"
  e_email :: "string option"
  e_urgency :: "string option"

definition no_info :: extracted where
  "no_info = \<lparr>e_mobile = None, e_name = None, e_complaint_id = None, e_email = None,
     e_urgency = None\<rparr>"

subsection \<open>extract\_user\_details\<close>

text \<open>
  \<open>\+\d{1,3}[-.\s]?\d{10,14}\<close>, \<open>\b\d{10,15}\b\<close> and \<open>\(\d{3}\)\s?\d{3}[-.\s]?\d{4}\<close>
\<close>

definition details_mobile_patterns :: "regex list" where
  "details_mobile_patterns =
     [seq [Lit CHR ''+'', Rep digit 1 (Some 3), opt dash_dot_space, Rep digit 10 (Some 14)],
      seq [WordB, Rep digit 10 (Some 15), WordB],
      seq [Lit CHR ''('', Rep digit 3 (Some 3), Lit CHR '')'', opt (Cls [Space]),
           Rep digit 3 (Some 3), opt dash_dot_space, Rep digit 4 (Some 4)]]"

text \<open>The loop over the mobile patterns: the first pattern whose match has 10 characters or more after cleaning.\<close>

fun details_mobile :: "regex list \<Rightarrow> string \<Rightarrow> string option" where
  "details_mobile [] message = None"
| "details_mobile (pattern # patterns) message =
     (case re_search False pattern message of
        None \<Rightarrow> details_mobile patterns message
      | Some m \<Rightarrow>
          (let mobile = remove_separators (group0 m) in
           if length mobile \<ge> 10 then Some mobile else details_mobile patterns message))"

text \<open>
  \<open>(?:my name is|i am|i\'m|name is|call me)\s+([a-zA-Z\s]{2,30})\<close> and
  \<open>^([A-Z][a-z]+(?:\s+[A-Z][a-z]+)+)\<close>, both with \<open>re.IGNORECASE\<close>.
\<close>

definition details_name_patterns :: "regex list" where
  "details_name_patterns =
     [seq [alt [str ''my name is'', str ''i am'', str ''i'm'', str ''name is'', str ''call me''],
           plus (Cls [Space]), Group (Rep letter_or_space 2 (Some 30))],
      seq [Bol, Group (seq [Cls [Range CHR ''A'' CHR ''Z''], plus (Cls [Range CHR ''a'' CHR ''z'']),
             plus (seq [plus (Cls [Space]), Cls [Range CHR ''A'' CHR ''Z''],
                        plus (Cls [Range CHR ''a'' CHR ''z''])])])]]"

text \<open>\<open>name.replace(' ', '')\<close>\<close>

definition remove_blanks :: "string \<Rightarrow> string" where
  "remove_blanks s = filter (\<lambda>c. c \<noteq> CHR '' '') s"

fun details_name :: "regex list \<Rightarrow> string \<Rightarrow> string option" where
  "details_name [] message = None"
| "details_name (pattern # patterns) message =
     (case re_search True pattern message of
        None \<Rightarrow> details_name patterns message
      | Some m \<Rightarrow>
          (let name = strip (group_1 m) in
           if length name \<ge> 2 \<and> isalpha (remove_blanks name) then Some name
           else details_name patterns message))"

text \<open>\<open>re.search(r'CMP[A-Z0-9]{8}', message.upper())\<close>\<close>

definition details_complaint_id_pattern :: regex where
  "details_complaint_id_pattern =
     seq [str ''CMP'', Rep (Cls [Range CHR ''A'' CHR ''Z'', Range CHR ''0'' CHR ''9'']) 8 (Some 8)]"

definition extract_user_details :: "string \<Rightarrow> extracted" where
  "extract_user_details message =
     \<lparr>e_mobile = details_mobile details_mobile_patterns message,
      e_name = details_name details_name_patterns message,
      e_complaint_id = map_option group0 (re_search False details_complaint_id_pattern (upper message)),
      e_email = None,
      e_urgency = None\<rparr>"

subsection \<open>smart\_intent\_detection\<close>

text \<open>
  Modelled from the spec: \<open>models/models.py\<close>, which declares \<open>UserContext\<close>, is not among
  the sources.  The fields are the ones the code reads and writes; a fresh
  \<open>UserContext()\<close> has \<open>current_step == initial\<close> and all slots unset, as the spec
  says of a fresh context.
\<close>

record UserContext =
  name :: "string option"
  mobile :: "string option"
  complaint_details :: "string option"
  current_step :: string

definition UserContext_new :: UserContext where
  "UserContext_new =
     \<lparr>name = None, mobile = None, complaint_details = None, current_step = ''initial''\<rparr>"

record intent_result =
  intent :: string
  intent_extracted_info :: extracted
  confidence :: rat

definition mobile_status_words :: "string list" where
  "mobile_status_words = [''status'', ''check'', ''my complaints'']"

definition registration_keywords :: "string list" where
  "registration_keywords =
     [''complaint'', ''complain'', ''issue'', ''problem'', ''register'', ''file'', ''report'',
      ''submit'', ''lodge'', ''raise'', ''create'', ''new complaint'', ''have a problem'',
      ''facing issue'', ''not working'', ''broken'', ''error'', ''bug'', ''fault'']"

definition status_keywords :: "string list" where
  "status_keywords =
     [''status'', ''check'', ''update'', ''progress'', ''what's'', ''how's'', ''where is'',
      ''track'', ''follow up'', ''any update'', ''current status'']"

definition help_words :: "string list" where
  "help_words = [''help'', ''how'', ''what'', ''guide'', ''instructions'']"

definition greeting_words :: "string list" where
  "greeting_words = [''hello'', ''hi'', ''hey'', ''good morning'', ''good afternoon'']"

definition smart_intent_detection :: "string \<Rightarrow> UserContext \<Rightarrow> intent_result" where
  "smart_intent_detection message context =
     (let message_lower = lower message;
          extracted_details = extract_user_details message
      in
      if current_step context \<noteq> ''initial'' then
        \<lparr>intent = ''continue_registration'', intent_extracted_info = extracted_details, confidence = 9 / 10\<rparr>
      else if truthy (e_complaint_id extracted_details) then
        \<lparr>intent = ''check_status_by_id'', intent_extracted_info = extracted_details, confidence = 95 / 100\<rparr>
      else if truthy (e_mobile extracted_details) \<and> any_in mobile_status_words message_lower then
        \<lparr>intent = ''check_status_by_mobile'', intent_extracted_info = extracted_details, confidence = 9 / 10\<rparr>
      else if any_in registration_keywords message_lower then
        \<lparr>intent = ''register_complaint'', intent_extracted_info = extracted_details, confidence = 85 / 100\<rparr>
      else if any_in status_keywords message_lower then
        \<lparr>intent = ''check_status'', intent_extracted_info = extracted_details, confidence = 8 / 10\<rparr>
      else if any_in help_words message_lower then
        \<lparr>intent = ''help'', intent_extracted_info = extracted_details, confidence = 7 / 10\<rparr>
      else if any_in greeting_words message_lower then
        \<lparr>intent = ''greeting'', intent_extracted_info = extracted_details, confidence = 7 / 10\<rparr>
      else
        \<lparr>intent = ''general'', intent_extracted_info = extracted_details, confidence = 5 / 10\<rparr>)"


subsection \<open>IntentBasedResponseSystem.extract\_information\<close>

text \<open>
  \<open>(\+\d{1,4}[-.\s]?\d{10,14})\<close>, \<open>(\+\d{1,4}\s?\d{10,14})\<close>,
  \<open>(\d{3}[-.\s]?\d{3}[-.\s]?\d{4})\<close>, \<open>(\d{10,15})\<close> and
  \<open>(\(\d{3}\)\s?\d{3}[-.\s]?\d{4})\<close>
\<close>

definition mobile_patterns :: "regex list" where
  "mobile_patterns =
     [Group (seq [Lit CHR ''+'', Rep digit 1 (Some 4), opt dash_dot_space, Rep digit 10 (Some 14)]),
      Group (seq [Lit CHR ''+'', Rep digit 1 (Some 4), opt (Cls [Space]), Rep digit 10 (Some 14)]),
      Group (seq [Rep digit 3 (Some 3), opt dash_dot_space, Rep digit 3 (Some 3), opt dash_dot_space,
                  Rep digit 4 (Some 4)]),
      Group (Rep digit 10 (Some 15)),
      Group (seq [Lit CHR ''('', Rep digit 3 (Some 3), Lit CHR '')'', opt (Cls [Space]),
                  Rep digit 3 (Some 3), opt dash_dot_space, Rep digit 4 (Some 4)])]"

text \<open>
  The inner loop over \<open>re.findall(pattern, user_message)\<close>: the first match whose
  cleaned form has 10 to 15 characters, all of them digits.
\<close>

fun first_valid_mobile :: "match list \<Rightarrow> string option" where
  "first_valid_mobile [] = None"
| "first_valid_mobile (mobile_match # mobile_matches) =
     (let mobile = strip (group_1 mobile_match);
          mobile_clean = remove_separators mobile
      in if 10 \<le> length mobile_clean \<and> length mobile_clean \<le> 15 \<and> isdigit mobile_clean
         then Some mobile_clean
         else first_valid_mobile mobile_matches)"

text \<open>The outer loop over the patterns, left at the first pattern that gives a mobile.\<close>

fun info_mobile :: "regex list \<Rightarrow> string \<Rightarrow> string option" where
  "info_mobile [] user_message = None"
| "info_mobile (pattern # patterns) user_message =
     (case first_valid_mobile (re_findall False pattern user_message) of
        Some mobile_clean \<Rightarrow> Some mobile_clean
      | None \<Rightarrow> info_mobile patterns user_message)"

text \<open>
  \<open>\b(CMP[A-Z0-9]{8,10})\b\<close>, \<open>\b(cmp[a-z0-9]{8,10})\b\<close> and
  \<open>complaint\s+(?:id|number)?\s*:?\s*([A-Z0-9]{10,12})\<close>, with \<open>re.IGNORECASE\<close>.
\<close>

definition complaint_id_patterns :: "regex list" where
  "complaint_id_patterns =
     [seq [WordB, Group (seq [str ''CMP'',
             Rep (Cls [Range CHR ''A'' CHR ''Z'', Range CHR ''0'' CHR ''9'']) 8 (Some 10)]), WordB],
      seq [WordB, Group (seq [str ''cmp'',
             Rep (Cls [Range CHR ''a'' CHR ''z'', Range CHR ''0'' CHR ''9'']) 8 (Some 10)]), WordB],
      seq [str ''complaint'', plus (Cls [Space]), opt (alt [str ''id'', str ''number'']),
           star (Cls [Space]), opt (Lit CHR '':''), star (Cls [Space]),
           Group (Rep (Cls [Range CHR ''A'' CHR ''Z'', Range CHR ''0'' CHR ''9'']) 10 (Some 12))]]"

fun info_complaint_id :: "regex list \<Rightarrow> string \<Rightarrow> string option" where
  "info_complaint_id [] user_message = None"
| "info_complaint_id (pattern # patterns) user_message =
     (case re_search True pattern user_message of
        Some complaint_match \<Rightarrow> Some (upper (group_1 complaint_match))
      | None \<Rightarrow> info_complaint_id patterns user_message)"

text \<open>
  The whole message as a name.  The test \<open>re.match(r'^[a-zA-Z\s]{2,40}$', original_message)\<close>
  uses the pattern \<open>whole_message_format\<close>.
\<close>

definition whole_message_format :: regex where
  "whole_message_format = seq [Bol, Rep letter_or_space 2 (Some 40), Eol]"

definition non_name_phrases :: "string list" where
  "non_name_phrases =
     [''yes'', ''no'', ''ok'', ''okay'', ''sure'', ''hello'', ''hi'', ''help'', ''what'', ''how'']"

definition whole_message_name :: "string \<Rightarrow> string option" where
  "whole_message_name user_message =
     (let original_message = strip user_message in
      if length (split original_message) \<le> 4 \<and>
         re_match False whole_message_format original_message \<noteq> None
      then (let words = split original_message in
            if list_all (\<lambda>word. length word \<ge> 2) words \<and> list_all isalpha words
            then (if lower original_message \<notin> set non_name_phrases
                  then Some (join '' '' (map capitalize words))
                  else None)
            else None)
      else None)"

text \<open>
  \<open>(?:i'm|i am|my name is|name is|call me)\s+([a-zA-Z][a-zA-Z\s]{1,40})\<close>,
  \<open>^([A-Z][a-z]+(?:\s+[A-Z][a-z]+){1,3})$\<close>, \<open>name:\s*([a-zA-Z][a-zA-Z\s]{1,40})\<close> and
  \<open>hi,?\s+(?:i'm|i am)\s+([a-zA-Z][a-zA-Z\s]{1,40})\<close>, with \<open>re.IGNORECASE\<close>.
\<close>

definition name_group :: regex where
  "name_group = Group (seq [letter, Rep letter_or_space 1 (Some 40)])"

definition name_patterns :: "regex list" where
  "name_patterns =
     [seq [alt [str ''i'm'', str ''i am'', str ''my name is'', str ''name is'', str ''call me''],
           plus (Cls [Space]), name_group],
      seq [Bol, Group (seq [Cls [Range CHR ''A'' CHR ''Z''], plus (Cls [Range CHR ''a'' CHR ''z'']),
             Rep (seq [plus (Cls [Space]), Cls [Range CHR ''A'' CHR ''Z''],
                       plus (Cls [Range CHR ''a'' CHR ''z''])]) 1 (Some 3)]), Eol],
      seq [str ''name:'', star (Cls [Space]), name_group],
      seq [str ''hi'', opt (Lit CHR '',''), plus (Cls [Space]), alt [str ''i'm'', str ''i am''],
           plus (Cls [Space]), name_group]]"

definition non_names :: "string list" where
  "non_names =
     [''help'', ''what'', ''how'', ''when'', ''where'', ''why'', ''yes'', ''no'', ''ok'', ''okay'']"

fun pattern_name :: "regex list \<Rightarrow> string \<Rightarrow> string option" where
  "pattern_name [] user_message = None"
| "pattern_name (pattern # patterns) user_message =
     (case re_search True pattern user_message of
        None \<Rightarrow> pattern_name patterns user_message
      | Some name_match \<Rightarrow>
          (let name_words = split (strip (group_1 name_match)) in
           if 1 \<le> length name_words \<and> length name_words \<le> 4 \<and>
              list_all (\<lambda>word. 2 \<le> length word \<and> length word \<le> 20 \<and> isalpha word) name_words \<and>
              \<not> list_ex (\<lambda>word. lower word \<in> set non_names) name_words
           then Some (join '' '' (map capitalize name_words))
           else pattern_name patterns user_message))"

text \<open>
  The name written by the whole-message test is overwritten when a pattern gives one.
\<close>

definition info_name :: "string \<Rightarrow> string option" where
  "info_name user_message =
     (case pattern_name name_patterns user_message of
        Some n \<Rightarrow> Some n
      | None \<Rightarrow> whole_message_name user_message)"

text \<open>
  \<open>\b([A-Za-z0-9._%+-]+@[A-Za-z0-9.-]+\.[A-Z|a-z]{2,})\b\<close> and
  \<open>email:\s*([A-Za-z0-9._%+-]+@[A-Za-z0-9.-]+\.[A-Z|a-z]{2,})\<close>
\<close>

definition email_group :: regex where
  "email_group =
     Group (seq [plus (Cls [Range CHR ''A'' CHR ''Z'', Range CHR ''a'' CHR ''z'', Range CHR ''0'' CHR ''9'',
                   Single CHR ''.'', Single CHR ''_'', Single CHR ''%'', Single CHR ''+'', Single CHR ''-'']),
                 Lit CHR ''@'',
                 plus (Cls [Range CHR ''A'' CHR ''Z'', Range CHR ''a'' CHR ''z'', Range CHR ''0'' CHR ''9'',
                   Single CHR ''.'', Single CHR ''-'']),
                 Lit CHR ''.'',
                 Rep (Cls [Range CHR ''A'' CHR ''Z'', Single CHR ''|'', Range CHR ''a'' CHR ''z'']) 2 None])"

definition email_patterns :: "regex list" where
  "email_patterns =
     [seq [WordB, email_group, WordB],
      seq [str ''email:'', star (Cls [Space]), email_group]]"

fun info_email :: "regex list \<Rightarrow> string \<Rightarrow> string option" where
  "info_email [] user_message = None"
| "info_email (pattern # patterns) user_message =
     (case re_search False pattern user_message of
        Some email_match \<Rightarrow> Some (lower (group_1 email_match))
      | None \<Rightarrow> info_email patterns user_message)"

definition info_urgency :: "string \<Rightarrow> string option" where
  "info_urgency message_lower =
     (if contains message_lower ''urgent'' \<or> contains message_lower ''emergency'' then Some ''high''
      else if contains message_lower ''asap'' \<or> contains message_lower ''immediately'' then Some ''high''
      else None)"

definition extract_information :: "string \<Rightarrow> extracted" where
  "extract_information user_message =
     \<lparr>e_mobile = info_mobile mobile_patterns user_message,
      e_name = info_name user_message,
      e_complaint_id = info_complaint_id complaint_id_patterns user_message,
      e_email = info_email email_patterns user_message,
      e_urgency = info_urgency (lower user_message)\<rparr>"


section \<open>Registration state machine (frontend/app.py)\<close>

text \<open>
  \<open>register_complaint_api\<close> posts to the API server and returns either
  \<open>{"success": True, "data": ...}\<close> or \<open>{"success": False, "error": ...}\<close>; it never
  raises.  The server is external: the call is the parameter \<open>api\<close>, and every call a
  function makes is recorded in \<open>api_calls\<close>.  The data of a success is the server's
  \<open>ComplaintResponse\<close>, with the fields the reply reads.
\<close>

record complaint_data =
  cd_complaint_id :: string
  cd_status :: string
  cd_category :: string
  cd_created_at :: string

datatype api_result = Success complaint_data | Failure string

record api_call =
  call_name :: "string option"
  call_mobile :: "string option"
  call_complaint_details :: "string option"
  call_category :: string

type_synonym register_complaint_api = "api_call \<Rightarrow> api_result"

text \<open>
  The replies, one constructor per message template of the source, with the values
  the template interpolates.
\<close>

datatype response =
    ComplaintRegistered complaint_data UserContext
  | RegistrationFailed string
  | SmartRegistration "(string \<times> string) list" "string list"
  | ThankYouProvideMobile string
  | ThankYouDescribeComplaint string
  | InvalidNameFormat
  | MobileRecordedDescribeComplaint string
  | InvalidMobileFormat
  | InsufficientDetails
  | ProvideRequestedInformation

text \<open>
  What a call leaves behind: the reply, the context object it was given (mutated in
  place), the object \<open>st.session_state.user_context\<close> refers to afterwards, and the API
  calls made.  The callers pass \<open>st.session_state.user_context\<close> as the context, so the
  session keeps referring to the mutated object unless the call replaces it.
\<close>

record outcome =
  reply :: response
  context_after :: UserContext
  session_context :: UserContext
  api_calls :: "api_call list"

definition same_context :: "response \<Rightarrow> UserContext \<Rightarrow> outcome" where
  "same_context r c = \<lparr>reply = r, context_after = c, session_context = c, api_calls = []\<rparr>"

text \<open>
  Modelled from the spec: \<open>models/models.py\<close>, which declares the enum
  \<open>ComplaintCategory\<close>, is not among the sources.  The values are the category names
  the knowledge base and the default \<open>"Other"\<close> of the source use.
\<close>

fun ComplaintCategory_value :: "ComplaintCategory \<Rightarrow> string" where
  "ComplaintCategory_value HARDWARE = ''Hardware''"
| "ComplaintCategory_value SOFTWARE = ''Software''"
| "ComplaintCategory_value NETWORK = ''Network''"
| "ComplaintCategory_value ACCOUNT = ''Account''"
| "ComplaintCategory_value BILLING = ''Billing''"
| "ComplaintCategory_value SERVICE = ''Service''"
| "ComplaintCategory_value OTHER = ''Other''"

text \<open>
  \<open>llm_handler\<close> tells whether \<open>st.session_state.llm_handler\<close> is set.  With unset
  complaint details \<open>categorize_complaint\<close> raises (\<open>None.lower()\<close>), which the bare
  \<open>except\<close> turns into the category \<open>Other\<close>.
\<close>

definition process_complaint_registration ::
  "bool \<Rightarrow> register_complaint_api \<Rightarrow> UserContext \<Rightarrow> outcome" where
  "process_complaint_registration llm_handler api context0 =
     (let context = context0\<lparr>current_step := ''processing''\<rparr>;
          category_value =
            (if llm_handler
             then (case complaint_details context of
                     Some details \<Rightarrow> ComplaintCategory_value (categorize_complaint details)
                   | None \<Rightarrow> ''Other'')
             else ''Other'');
          call = \<lparr>call_name = name context, call_mobile = mobile context,
                  call_complaint_details = complaint_details context,
                  call_category = category_value\<rparr>
      in case api call of
           Success complaint_data \<Rightarrow>
             \<lparr>reply = ComplaintRegistered complaint_data context, context_after = context,
              session_context = UserContext_new, api_calls = [call]\<rparr>
         | Failure error \<Rightarrow>
             \<lparr>reply = RegistrationFailed error, context_after = context,
              session_context = UserContext_new, api_calls = [call]\<rparr>)"

definition handle_step_by_step_collection ::
  "bool \<Rightarrow> register_complaint_api \<Rightarrow> string \<Rightarrow> UserContext \<Rightarrow> extracted \<Rightarrow> outcome" where
  "handle_step_by_step_collection llm_handler api user_message context extracted_info =
     (if current_step context = ''collecting_name'' then
        (let name = or_else (e_name extracted_info) (strip user_message) in
         if validate_name name then
           (let context = context\<lparr>name := Some name\<rparr> in
            if \<not> truthy (mobile context) then
              same_context (ThankYouProvideMobile name)
                (context\<lparr>current_step := ''collecting_mobile''\<rparr>)
            else if \<not> truthy (complaint_details context) then
              same_context (ThankYouDescribeComplaint name)
                (context\<lparr>current_step := ''collecting_details''\<rparr>)
            else process_complaint_registration llm_handler api context)
         else same_context InvalidNameFormat context)
      else if current_step context = ''collecting_mobile'' then
        (let mobile = or_else (e_mobile extracted_info) (strip user_message) in
         if validate_mobile mobile then
           (let context = context\<lparr>mobile := Some mobile\<rparr> in
            if \<not> truthy (complaint_details context) then
              same_context (MobileRecordedDescribeComplaint mobile)
                (context\<lparr>current_step := ''collecting_details''\<rparr>)
            else process_complaint_registration llm_handler api context)
         else same_context InvalidMobileFormat context)
      else if current_step context = ''collecting_details'' then
        (if length (strip user_message) < 10 then same_context InsufficientDetails context
         else process_complaint_registration llm_handler api
                (context\<lparr>complaint_details := Some (strip user_message)\<rparr>))
      else same_context ProvideRequestedInformation context)"

definition complaint_indicators :: "string list" where
  "complaint_indicators =
     [''issue with'', ''problem with'', ''not working'', ''broken'', ''error'', ''bug'',
      ''complaint about'', ''issue is'', ''problem is'', ''facing'', ''having trouble'']"

definition complaint_words :: "string list" where
  "complaint_words =
     [''laptop'', ''computer'', ''screen'', ''keyboard'', ''mouse'', ''software'', ''application'',
      ''internet'', ''network'', ''wifi'', ''slow'', ''crash'', ''freeze'', ''hang'',
      ''login'', ''password'', ''account'', ''access'', ''bill'', ''charge'', ''payment'']"

text \<open>
  The loop over the indicators: it ends, with the details found, at the first
  indicator that occurs in the message and is followed by more than 10 characters
  (after \<open>strip\<close>).
\<close>

fun indicator_found :: "string list \<Rightarrow> string \<Rightarrow> bool" where
  "indicator_found [] message_lower = False"
| "indicator_found (indicator # indicators) message_lower =
     (if contains message_lower indicator \<and>
         (case after_first indicator message_lower of
            Some part \<Rightarrow> length (strip part) > 10
          | None \<Rightarrow> False)
      then True
      else indicator_found indicators message_lower)"

text \<open>The two tests that take the message as the complaint details.\<close>

definition details_detected :: "string \<Rightarrow> bool" where
  "details_detected user_message =
     (indicator_found complaint_indicators (lower user_message) \<or>
      (length (strip user_message) > 20 \<and> any_in complaint_words (lower user_message)))"

text \<open>The first part of \<open>handle_smart_registration\<close>: the context after the updates.\<close>

definition update_context :: "string \<Rightarrow> UserContext \<Rightarrow> extracted \<Rightarrow> UserContext" where
  "update_context user_message context0 extracted_info =
     (let context =
            (if truthy (e_name extracted_info) \<and> \<not> truthy (name context0)
             then context0\<lparr>name := e_name extracted_info\<rparr> else context0);
          context =
            (if truthy (e_mobile extracted_info) \<and> \<not> truthy (mobile context)
             then context\<lparr>mobile := e_mobile extracted_info\<rparr> else context)
      in if \<not> truthy (complaint_details context) \<and>
            current_step context \<in> set [''initial'', ''collecting_details''] \<and>
            details_detected user_message
         then context\<lparr>complaint_details := Some (strip user_message)\<rparr>
         else context)"

definition missing_info :: "UserContext \<Rightarrow> string list" where
  "missing_info context =
     (if \<not> truthy (name context) then [''name''] else []) @
     (if \<not> truthy (mobile context) then [''mobile number''] else []) @
     (if \<not> truthy (complaint_details context) then [''complaint details''] else [])"

definition detected_info :: "UserContext \<Rightarrow> (string \<times> string) list" where
  "detected_info context =
     (if truthy (name context) then [(''Name'', or_else (name context) [])] else []) @
     (if truthy (mobile context) then [(''Mobile'', or_else (mobile context) [])] else []) @
     (if truthy (complaint_details context)
      then [(''Issue'', take 100 (or_else (complaint_details context) []))] else [])"

definition handle_smart_registration ::
  "bool \<Rightarrow> register_complaint_api \<Rightarrow> string \<Rightarrow> UserContext \<Rightarrow> extracted \<Rightarrow> outcome" where
  "handle_smart_registration llm_handler api user_message context0 extracted_info =
     (let context = update_context user_message context0 extracted_info;
          missing = missing_info context
      in
      if missing = [] then process_complaint_registration llm_handler api context
      else if current_step context = ''initial'' then
        same_context (SmartRegistration (detected_info context) missing)
          (context\<lparr>current_step :=
             (if ''name'' \<in> set missing then ''collecting_name''
              else if ''mobile number'' \<in> set missing then ''collecting_mobile''
              else ''collecting_details'')\<rparr>)
      else handle_step_by_step_collection llm_handler api user_message context extracted_info)"

text \<open>An API server that registers every complaint, and one that is down.\<close>

definition api_up :: register_complaint_api where
  "api_up call =
     Success \<lparr>cd_complaint_id = ''CMP9B41CA0F'', cd_status = ''Registered'',
       cd_category = call_category call, cd_created_at = ''2024-01-15T10:30:00''\<rparr>"

definition api_down :: register_complaint_api where
  "api_down call = Failure ''Connection error: connection refused''"





section \<open>Properties of the categorisation\<close>

lemma category_set_UNIV: "c \<in> category_set"
  by (cases c) (simp_all add: category_set_def)

text \<open>
  Claim C10.  For every input string \<open>categorize_complaint\<close> returns a member of the
  fixed category set; the keyword groups are tried in the fixed order hardware,
  software, network, account, billing, service, so the result is the category of the
  earliest group the text matches, and \<open>OTHER\<close> when it matches none.
\<close>

theorem categorize_complaint_total_precedence:
  "categorize_complaint s \<in> category_set \<and>
   categorize_complaint s = (case matching_groups s of [] \<Rightarrow> OTHER | c # _ \<Rightarrow> c)"
proof
  show "categorize_complaint s \<in> category_set"
    by (rule category_set_UNIV)
next
  show "categorize_complaint s = (case matching_groups s of [] \<Rightarrow> OTHER | c # _ \<Rightarrow> c)"
    by (simp add: categorize_complaint_def matching_groups_def keyword_groups_def Let_def)
qed

lemma categorize_complaint_examples:
  "categorize_complaint ''My LAPTOP has a software bug'' = HARDWARE"
  "categorize_complaint ''The app is slow'' = SOFTWARE"
  "categorize_complaint ''I was overcharged on my Bill'' = BILLING"
  "categorize_complaint ''nothing matches here'' = OTHER"
  by (simp_all add: categorize_complaint_def any_in_def lower_def lower_char_def
      is_upper_def ord_def hardware_words_def software_words_def network_words_def
      account_words_def billing_words_def service_words_def)


section \<open>Properties of the status update\<close>

lemma select_status_None: "select_status db cid = None \<longleftrightarrow> cid \<notin> row_complaint_id ` set (complaints db)"
proof (cases "filter (\<lambda>r. row_complaint_id r = cid) (complaints db)")
  case Nil
  then have "cid \<notin> row_complaint_id ` set (complaints db)"
    by (auto simp: filter_empty_conv)
  with Nil show ?thesis
    by (simp add: select_status_def)
next
  case (Cons r rs)
  then have "r \<in> set (filter (\<lambda>r. row_complaint_id r = cid) (complaints db))"
    by simp
  then have "cid \<in> row_complaint_id ` set (complaints db)"
    by auto
  with Cons show ?thesis
    by (simp add: select_status_def)
qed

lemma select_status_updated:
  "select_status \<lparr>complaints = update_status_rows cid new now rows, status_history = h\<rparr> cid =
   (if cid \<in> row_complaint_id ` set rows then Some new else None)"
proof -
  have eq: "filter (\<lambda>r. row_complaint_id r = cid) (update_status_rows cid new now rows) =
        map (\<lambda>r. r\<lparr>row_status := new, row_updated_at := now\<rparr>)
          (filter (\<lambda>r. row_complaint_id r = cid) rows)"
    by (induction rows) (simp_all add: update_status_rows_def)
  show ?thesis
  proof (cases "filter (\<lambda>r. row_complaint_id r = cid) rows")
    case Nil
    then have "cid \<notin> row_complaint_id ` set rows"
      by (auto simp: filter_empty_conv)
    with Nil show ?thesis
      by (simp add: select_status_def eq)
  next
    case (Cons r rs)
    then have "r \<in> set (filter (\<lambda>r. row_complaint_id r = cid) rows)"
      by simp
    then have "cid \<in> row_complaint_id ` set rows"
      by auto
    with Cons show ?thesis
      by (simp add: select_status_def eq)
  qed
qed

lemma update_status_rows_ids:
  "map row_complaint_id (update_status_rows cid new now rows) = map row_complaint_id rows"
  by (induction rows) (simp_all add: update_status_rows_def)

lemma update_status_rows_others:
  "filter (\<lambda>r. row_complaint_id r \<noteq> cid) (update_status_rows cid new now rows) =
   filter (\<lambda>r. row_complaint_id r \<noteq> cid) rows"
  by (induction rows) (simp_all add: update_status_rows_def)

lemma update_status_rows_status:
  assumes mem: "r \<in> set (update_status_rows cid new now rows)" and cid: "row_complaint_id r = cid"
  shows "row_status r = new"
proof -
  from mem have "r \<in> (\<lambda>r. if row_complaint_id r = cid then r\<lparr>row_status := new, row_updated_at := now\<rparr> else r) ` set rows"
    by (simp add: update_status_rows_def)
  then obtain r0 where r0: "r0 \<in> set rows"
    and r: "r = (if row_complaint_id r0 = cid then r0\<lparr>row_status := new, row_updated_at := now\<rparr> else r0)"
    by blast
  show "row_status r = new"
  proof (cases "row_complaint_id r0 = cid")
    case True
    with r show ?thesis by simp
  next
    case False
    with r cid show ?thesis by simp
  qed
qed

text \<open>
  Claim C9.  When no complaint has the given id, \<open>update_complaint_status\<close> returns
  \<open>False\<close> and leaves the complaints and the status history as they were.  When one
  has, it returns \<open>True\<close>, the complaint's status is the new status, exactly one
  record is appended to the status history, with the prior status as \<open>old_status\<close>
  and the new status as \<open>new_status\<close>, and the other complaints are untouched.
\<close>

theorem update_complaint_status_atomic:
  "(cid \<notin> row_complaint_id ` set (complaints db) \<longrightarrow>
      update_complaint_status db now cid new notes = (False, db)) \<and>
   (cid \<in> row_complaint_id ` set (complaints db) \<longrightarrow>
      fst (update_complaint_status db now cid new notes) = True \<and>
      select_status (snd (update_complaint_status db now cid new notes)) cid =
        Some (status_value new) \<and>
      (\<forall>r \<in> set (complaints (snd (update_complaint_status db now cid new notes))).
         row_complaint_id r = cid \<longrightarrow> row_status r = status_value new) \<and>
      status_history (snd (update_complaint_status db now cid new notes)) =
        status_history db @
          [\<lparr>h_complaint_id = cid, h_old_status = select_status db cid,
            h_new_status = status_value new, h_notes = notes, h_changed_at = now\<rparr>] \<and>
      select_status db cid \<noteq> None \<and>
      map row_complaint_id (complaints (snd (update_complaint_status db now cid new notes))) =
        map row_complaint_id (complaints db) \<and>
      other_complaints (snd (update_complaint_status db now cid new notes)) cid =
        other_complaints db cid)"
proof (intro conjI impI)
  assume "cid \<notin> row_complaint_id ` set (complaints db)"
  then have "select_status db cid = None"
    by (simp add: select_status_None)
  then show "update_complaint_status db now cid new notes = (False, db)"
    by (simp add: update_complaint_status_def)
next
  assume ex: "cid \<in> row_complaint_id ` set (complaints db)"
  then obtain old where old: "select_status db cid = Some old"
    using select_status_None [of db cid] by (cases "select_status db cid") auto
  let ?db' = "snd (update_complaint_status db now cid new notes)"
  have db': "?db' = \<lparr>complaints = update_status_rows cid (status_value new) now (complaints db),
      status_history = status_history db @
        [\<lparr>h_complaint_id = cid, h_old_status = Some old,
          h_new_status = status_value new, h_notes = notes, h_changed_at = now\<rparr>]\<rparr>"
    by (simp add: update_complaint_status_def old)
  show "fst (update_complaint_status db now cid new notes) = True"
    by (simp add: update_complaint_status_def old)
  show "select_status ?db' cid = Some (status_value new)"
    unfolding db' using ex by (simp add: select_status_updated)
  show "\<forall>r \<in> set (complaints ?db'). row_complaint_id r = cid \<longrightarrow> row_status r = status_value new"
    unfolding db' by (auto dest: update_status_rows_status)
  show "status_history ?db' = status_history db @
      [\<lparr>h_complaint_id = cid, h_old_status = select_status db cid,
        h_new_status = status_value new, h_notes = notes, h_changed_at = now\<rparr>]"
    unfolding db' by (simp add: old)
  show "select_status db cid \<noteq> None"
    by (simp add: old)
  show "map row_complaint_id (complaints ?db') = map row_complaint_id (complaints db)"
    unfolding db' by (simp add: update_status_rows_ids)
  show "other_complaints ?db' cid = other_complaints db cid"
    unfolding db' by (simp add: other_complaints_def update_status_rows_others)
qed

theorem update_complaint_status_atomic_witness:
  "''CMP00000000'' \<notin> row_complaint_id ` set (complaints example_db) \<and>
   update_complaint_status example_db 2 ''CMP00000000'' RESOLVED None = (False, example_db) \<and>
   ''CMP9B41CA0F'' \<in> row_complaint_id ` set (complaints example_db) \<and>
   fst (update_complaint_status example_db 2 ''CMP9B41CA0F'' RESOLVED None) = True \<and>
   select_status (snd (update_complaint_status example_db 2 ''CMP9B41CA0F'' RESOLVED None))
     ''CMP9B41CA0F'' = Some ''Resolved'' \<and>
   status_history (snd (update_complaint_status example_db 2 ''CMP9B41CA0F'' RESOLVED None)) =
     status_history example_db @
       [\<lparr>h_complaint_id = ''CMP9B41CA0F'', h_old_status = Some ''Registered'',
         h_new_status = ''Resolved'', h_notes = None, h_changed_at = 2\<rparr>]"
proof -
  have a: "''CMP00000000'' \<notin> row_complaint_id ` set (complaints example_db)"
    by (simp add: example_db_def)
  have b: "''CMP9B41CA0F'' \<in> row_complaint_id ` set (complaints example_db)"
    by (simp add: example_db_def)
  have c: "select_status example_db ''CMP9B41CA0F'' = Some ''Registered''"
    by (simp add: example_db_def select_status_def)
  show ?thesis
    using a b c
      update_complaint_status_atomic [of "''CMP00000000''" example_db 2 RESOLVED None]
      update_complaint_status_atomic [of "''CMP9B41CA0F''" example_db 2 RESOLVED None]
    by simp
qed


section \<open>Properties of the semantic retrieval\<close>

lemma relevant_entries_map_filter:
  "relevant_entries kb sims idxs =
   map (\<lambda>i. (kb ! i, sims ! i)) (filter (\<lambda>i. sims ! i > 3 / 10) idxs)"
  by (induction idxs) simp_all

lemma sorted_argsort: "sorted (map (\<lambda>i. sims ! i) (argsort sims))"
  by (simp add: argsort_def)

lemma length_slice_from_neg:
  "0 < k \<Longrightarrow> int (length (slice_from (- k) xs)) \<le> k"
  by (auto simp: slice_from_def Let_def)

lemma slice_from_drop: "\<exists>n. slice_from start xs = drop n xs"
  by (auto simp: slice_from_def Let_def)

lemma sorted_map_drop: "sorted (map f xs) \<Longrightarrow> sorted (map f (drop n xs))"
  by (simp add: drop_map [symmetric] sorted_wrt_drop)

lemma sorted_map_filter: "sorted (map f xs) \<Longrightarrow> sorted (map f (filter P xs))"
  by (induction xs) auto

lemma top_indices_descending:
  "sorted (map (\<lambda>i. sims ! i) (filter P (slice_from start (argsort sims))))"
proof -
  obtain n where n: "slice_from start (argsort sims) = drop n (argsort sims)"
    using slice_from_drop by blast
  show ?thesis
    unfolding n by (intro sorted_map_filter sorted_map_drop sorted_argsort)
qed

lemma find_relevant_context_scores:
  "map similarity_score (find_relevant_context kb sims top_k) =
   rev (map (\<lambda>i. sims ! i) (filter (\<lambda>i. sims ! i > 3 / 10) (slice_from (- top_k) (argsort sims))))"
  by (simp add: find_relevant_context_def relevant_entries_map_filter rev_map rev_filter
      similarity_score_def comp_def)

lemma find_relevant_context_descending:
  "sorted (rev (map similarity_score (find_relevant_context kb sims top_k)))"
  by (simp add: find_relevant_context_scores top_indices_descending)

lemma find_relevant_context_threshold:
  "e \<in> set (find_relevant_context kb sims top_k) \<Longrightarrow> similarity_score e > 3 / 10"
  by (auto simp: find_relevant_context_def relevant_entries_map_filter similarity_score_def)

lemma find_relevant_context_length:
  assumes "0 < top_k"
  shows "int (length (find_relevant_context kb sims top_k)) \<le> top_k"
proof -
  have "length (find_relevant_context kb sims top_k) \<le> length (slice_from (- top_k) (argsort sims))"
    using length_filter_le [of "\<lambda>i. sims ! i > 3 / 10" "rev (slice_from (- top_k) (argsort sims))"]
    by (simp add: find_relevant_context_def relevant_entries_map_filter)
  with length_slice_from_neg [OF assms, of "argsort sims"] show ?thesis
    by linarith
qed

text \<open>
  For a positive \<open>top_k\<close> the result is ordered by non-increasing similarity, has at
  most \<open>top_k\<close> entries, and every entry has a similarity above 0.3.
\<close>

lemma find_relevant_context_positive_top_k:
  "0 < top_k \<Longrightarrow>
     sorted (rev (map similarity_score (find_relevant_context kb sims top_k))) \<and>
     int (length (find_relevant_context kb sims top_k)) \<le> top_k \<and>
     (\<forall>e \<in> set (find_relevant_context kb sims top_k). similarity_score e > 3 / 10)"
  using find_relevant_context_descending [of kb sims top_k]
    find_relevant_context_length [of top_k kb sims]
    find_relevant_context_threshold [of _ kb sims top_k]
  by blast

text \<open>
  Claim C6 says that for every \<open>top_k\<close> the result has at most \<open>top_k\<close> entries.  With
  \<open>top_k = 0\<close> the slice \<open>[-top_k:]\<close> is \<open>[0:]\<close>, the whole array: the call returns
  every entry above the threshold, here three of them.
\<close>

theorem find_relevant_context_top_k_zero:
  "map (\<lambda>e. (kb_id (fst e), similarity_score e))
     (find_relevant_context knowledge_base [9 / 10, 1 / 2, 2 / 5, 1 / 5, 1 / 10, 0] 0) =
   [(''kb_001'', 9 / 10), (''kb_002'', 1 / 2), (''kb_003'', 2 / 5)]"
  by (simp add: find_relevant_context_def argsort_def slice_from_def knowledge_base_def
      similarity_score_def upt_conv_Cons)


section \<open>Properties of the conversation memory\<close>

lemma max_from_split:
  "\<exists>pre post. b # xs = pre @ max_from key b xs # post \<and>
     (\<forall>y \<in> set pre. key y < key (max_from key b xs)) \<and>
     (\<forall>y \<in> set post. key y \<le> key (max_from key b xs))"
proof (induction xs arbitrary: b)
  case Nil
  have "[b] = [] @ b # []" by simp
  then show ?case by fastforce
next
  case (Cons x xs)
  show ?case
  proof (cases "key x > key b")
    case True
    from Cons.IH [of x] obtain pre post where
      eq: "x # xs = pre @ max_from key x xs # post"
      and lt: "\<forall>y \<in> set pre. key y < key (max_from key x xs)"
      and le: "\<forall>y \<in> set post. key y \<le> key (max_from key x xs)"
      by blast
    have "key x \<le> key (max_from key x xs)"
    proof (cases pre)
      case Nil
      with eq have e: "max_from key x xs = x" by (metis append_Nil list.inject)
      show ?thesis unfolding e by simp
    next
      case (Cons p ps)
      with eq have "x \<in> set pre" by simp
      with lt show ?thesis by (simp add: less_imp_le)
    qed
    with True have b: "key b < key (max_from key x xs)" by simp
    have "b # x # xs = (b # pre) @ max_from key x xs # post"
      using eq by simp
    moreover have "\<forall>y \<in> set (b # pre). key y < key (max_from key x xs)"
      using lt b by simp
    ultimately show ?thesis
      using le True by (metis max_from.simps(2))
  next
    case False
    from Cons.IH [of b] obtain pre post where
      eq: "b # xs = pre @ max_from key b xs # post"
      and lt: "\<forall>y \<in> set pre. key y < key (max_from key b xs)"
      and le: "\<forall>y \<in> set post. key y \<le> key (max_from key b xs)"
      by blast
    show ?thesis
    proof (cases pre)
      case Nil
      with eq have m: "max_from key b xs = b" and post: "post = xs"
        by (metis append_Nil list.inject)+
      have "b # x # xs = [] @ b # (x # xs)" by simp
      moreover have "\<forall>y \<in> set (x # xs). key y \<le> key b"
        using le False m post by auto
      ultimately show ?thesis
        using False m by (metis empty_iff list.set(1) max_from.simps(2))
    next
      case (Cons p ps)
      with eq have p: "p = b" and xs: "xs = ps @ max_from key b xs # post"
        by (metis append_Cons list.inject)+
      from lt Cons p have bm: "key b < key (max_from key b xs)" by simp
      have "b # x # xs = (b # x # ps) @ max_from key b xs # post"
        using xs by simp
      moreover have "\<forall>y \<in> set (b # x # ps). key y < key (max_from key b xs)"
        using lt Cons p bm False by auto
      ultimately show ?thesis
        using le False by (metis max_from.simps(2))
    qed
  qed
qed

lemma dominant_total:
  assumes "is_set_order set_order h"
  shows "\<exists>d. dominant set_order h = Inr d"
proof (cases "h = []")
  case True
  then show ?thesis by (simp add: dominant_def)
next
  case False
  with assms have "set_order \<noteq> []" by (auto simp: is_set_order_def)
  then show ?thesis
    using False by (auto simp: dominant_def py_max_def split: list.split)
qed

lemma dominant_first_maximal:
  assumes it: "is_set_order set_order h" and ne: "h \<noteq> []"
    and d: "dominant set_order h = Inr d"
  shows "first_maximal set_order h d"
proof -
  from it ne obtain b xs where bx: "set_order = b # xs"
    by (cases set_order) (auto simp: is_set_order_def)
  with d ne have "d = max_from (count_list h) b xs"
    by (simp add: dominant_def py_max_def)
  with max_from_split [of b xs "count_list h"] bx show ?thesis
    by (simp add: first_maximal_def)
qed

lemma first_maximal_most_frequent:
  assumes it: "is_set_order set_order h" and f: "first_maximal set_order h d"
  shows "most_frequent h d"
proof -
  from f obtain pre post where o: "set_order = pre @ d # post"
    and lt: "\<forall>y \<in> set pre. count_list h y < count_list h d"
    and le: "\<forall>y \<in> set post. count_list h y \<le> count_list h d"
    by (auto simp: first_maximal_def)
  from it o have sh: "set h = set pre \<union> {d} \<union> set post"
    by (auto simp: is_set_order_def)
  have "\<forall>y \<in> set h. count_list h y \<le> count_list h d"
  proof
    fix y
    assume "y \<in> set h"
    with sh consider "y \<in> set pre" | "y = d" | "y \<in> set post" by auto
    then show "count_list h y \<le> count_list h d"
    proof cases
      case 1
      with lt show ?thesis by (simp add: less_imp_le)
    next
      case 2
      then show ?thesis by simp
    next
      case 3
      with le show ?thesis by simp
    qed
  qed
  moreover from sh have "d \<in> set h" by simp
  ultimately show ?thesis by (simp add: most_frequent_def)
qed

lemma get_contextual_insights_dominant:
  "map_sum id dominant_sentiment (get_contextual_insights set_order m) =
   dominant set_order (sentiment_history m)"
  by (cases "dominant set_order (sentiment_history m)") (simp_all add: get_contextual_insights_def)

text \<open>
  Claim C8, as amended.  Two evaluations on memories with identical sentiment
  histories, each with its own iteration order of the set of labels, return
  \<open>neutral\<close> when the history is empty and otherwise a most frequent label of the
  history, the first one of maximal count in the iteration order of that evaluation.
  When the history is empty or has a single most frequent label, the two evaluations
  return the identical value.
\<close>

theorem dominant_sentiment_single_mode_stable:
  assumes "is_set_order order1 (sentiment_history m1)"
    and "is_set_order order2 (sentiment_history m2)"
    and "sentiment_history m1 = sentiment_history m2"
  shows "\<exists>i1 i2.
     get_contextual_insights order1 m1 = Inr i1 \<and>
     get_contextual_insights order2 m2 = Inr i2 \<and>
     (sentiment_history m1 = [] \<longrightarrow>
        dominant_sentiment i1 = ''neutral'' \<and> dominant_sentiment i2 = ''neutral'') \<and>
     (sentiment_history m1 \<noteq> [] \<longrightarrow>
        most_frequent (sentiment_history m1) (dominant_sentiment i1) \<and>
        most_frequent (sentiment_history m1) (dominant_sentiment i2) \<and>
        first_maximal order1 (sentiment_history m1) (dominant_sentiment i1) \<and>
        first_maximal order2 (sentiment_history m1) (dominant_sentiment i2)) \<and>
     (sentiment_history m1 = [] \<or> single_most_frequent (sentiment_history m1) \<longrightarrow>
        dominant_sentiment i1 = dominant_sentiment i2)"
proof -
  let ?h = "sentiment_history m1"
  from assms have o1: "is_set_order order1 ?h" and o2: "is_set_order order2 ?h"
    by simp_all
  from dominant_total [OF o1] obtain d1 where d1: "dominant order1 ?h = Inr d1"
    by blast
  from dominant_total [OF o2] obtain d2 where d2: "dominant order2 ?h = Inr d2"
    by blast
  from d1 obtain i1 where i1: "get_contextual_insights order1 m1 = Inr i1"
    and e1: "dominant_sentiment i1 = d1"
    by (simp add: get_contextual_insights_def)
  from d2 assms(3) obtain i2 where i2: "get_contextual_insights order2 m2 = Inr i2"
    and e2: "dominant_sentiment i2 = d2"
    by (simp add: get_contextual_insights_def)
  have empty: "?h = [] \<longrightarrow> d1 = ''neutral'' \<and> d2 = ''neutral''"
    using d1 d2 by (auto simp: dominant_def)
  have f1: "?h \<noteq> [] \<longrightarrow> first_maximal order1 ?h d1"
    using dominant_first_maximal [OF o1 _ d1] by blast
  have f2: "?h \<noteq> [] \<longrightarrow> first_maximal order2 ?h d2"
    using dominant_first_maximal [OF o2 _ d2] by blast
  have m1: "?h \<noteq> [] \<longrightarrow> most_frequent ?h d1"
    using f1 first_maximal_most_frequent [OF o1] by blast
  have m2: "?h \<noteq> [] \<longrightarrow> most_frequent ?h d2"
    using f2 first_maximal_most_frequent [OF o2] by blast
  have same: "?h = [] \<or> single_most_frequent ?h \<longrightarrow> d1 = d2"
  proof (cases "?h = []")
    case True
    with empty show ?thesis by simp
  next
    case False
    with m1 m2 show ?thesis by (auto simp: single_most_frequent_def)
  qed
  from i1 i2 e1 e2 empty f1 f2 m1 m2 same show ?thesis
    by simp
qed

lemma memory_a_single: "single_most_frequent (sentiment_history memory_a)"
proof -
  have "most_frequent (sentiment_history memory_a) x \<Longrightarrow> x = ''negative''" for x
    by (auto simp: most_frequent_def memory_a_def)
  then show ?thesis
    by (auto simp: single_most_frequent_def)
qed

text \<open>
  A history in which \<open>negative\<close> is the single most frequent label, evaluated with two
  different iteration orders.
\<close>

theorem dominant_sentiment_single_mode_stable_witness:
  "is_set_order [''positive'', ''negative'', ''neutral''] (sentiment_history memory_a) \<and>
   is_set_order [''neutral'', ''negative'', ''positive''] (sentiment_history memory_b) \<and>
   sentiment_history memory_a = sentiment_history memory_b \<and>
   single_most_frequent (sentiment_history memory_a) \<and>
   map_sum id dominant_sentiment
     (get_contextual_insights [''positive'', ''negative'', ''neutral''] memory_a) = Inr ''negative'' \<and>
   map_sum id dominant_sentiment
     (get_contextual_insights [''neutral'', ''negative'', ''positive''] memory_b) = Inr ''negative''"
proof -
  have o1: "is_set_order [''positive'', ''negative'', ''neutral''] (sentiment_history memory_a)"
    by (auto simp: is_set_order_def memory_a_def)
  have o2: "is_set_order [''neutral'', ''negative'', ''positive''] (sentiment_history memory_b)"
    by (auto simp: is_set_order_def memory_b_def)
  have h: "sentiment_history memory_a = sentiment_history memory_b"
    by (simp add: memory_a_def memory_b_def)
  have a: "dominant [''positive'', ''negative'', ''neutral''] (sentiment_history memory_a) =
      Inr ''negative''"
    by (simp add: memory_a_def dominant_def py_max_def)
  have b: "dominant [''neutral'', ''negative'', ''positive''] (sentiment_history memory_b) =
      Inr ''negative''"
    by (simp add: memory_b_def dominant_def py_max_def)
  from dominant_sentiment_single_mode_stable [OF o1 o2 h] memory_a_single a b o1 o2 h
  show ?thesis
    by (simp add: get_contextual_insights_dominant)
qed

text \<open>
  Claim C8, as stated, fails under a tie.  In the history
  \<open>positive, negative, negative, positive, neutral\<close> the labels \<open>positive\<close> and
  \<open>negative\<close> both occur twice.  An evaluation that iterates the set as
  \<open>positive, negative, neutral\<close> returns \<open>positive\<close>; one that iterates it as
  \<open>negative, positive, neutral\<close> returns \<open>negative\<close>.
\<close>

theorem dominant_sentiment_tie_counterexample:
  "is_set_order [''positive'', ''negative'', ''neutral''] (sentiment_history tie_memory) \<and>
   is_set_order [''negative'', ''positive'', ''neutral''] (sentiment_history tie_memory) \<and>
   map_sum id dominant_sentiment
     (get_contextual_insights [''positive'', ''negative'', ''neutral''] tie_memory) = Inr ''positive'' \<and>
   map_sum id dominant_sentiment
     (get_contextual_insights [''negative'', ''positive'', ''neutral''] tie_memory) = Inr ''negative''"
proof -
  have "is_set_order [''positive'', ''negative'', ''neutral''] (sentiment_history tie_memory)"
    "is_set_order [''negative'', ''positive'', ''neutral''] (sentiment_history tie_memory)"
    by (auto simp: is_set_order_def tie_memory_def)
  moreover have "dominant [''positive'', ''negative'', ''neutral''] (sentiment_history tie_memory) =
      Inr ''positive''"
    "dominant [''negative'', ''positive'', ''neutral''] (sentiment_history tie_memory) =
      Inr ''negative''"
    by (simp_all add: tie_memory_def dominant_def py_max_def)
  ultimately show ?thesis
    by (simp add: get_contextual_insights_dominant)
qed


section \<open>Properties of the registration state machine\<close>

lemma api_calls_same_context: "api_calls (same_context r c) = []"
  by (simp add: same_context_def)

lemma session_context_same_context: "session_context (same_context r c) = c"
  by (simp add: same_context_def)

lemma process_session_context:
  "session_context (process_complaint_registration llm api c) = UserContext_new"
  by (simp add: process_complaint_registration_def Let_def split: api_result.split)

lemma process_context_after:
  "context_after (process_complaint_registration llm api c) = c\<lparr>current_step := ''processing''\<rparr>"
  by (simp add: process_complaint_registration_def Let_def split: api_result.split)



lemma step_by_step_submission_resets:
  "api_calls (handle_step_by_step_collection llm api m c e) \<noteq> [] \<Longrightarrow>
   session_context (handle_step_by_step_collection llm api m c e) = UserContext_new"
  by (simp add: handle_step_by_step_collection_def Let_def api_calls_same_context
      process_session_context split: if_splits)

lemma smart_registration_submission_resets:
  "api_calls (handle_smart_registration llm api m c e) \<noteq> [] \<Longrightarrow>
   session_context (handle_smart_registration llm api m c e) = UserContext_new"
  by (simp add: handle_smart_registration_def Let_def api_calls_same_context
      process_session_context step_by_step_submission_resets split: if_splits)

text \<open>
  Claim C2.  After every submission attempt, whether the API call succeeds or fails,
  the session's context is a fresh \<open>UserContext\<close>: its \<open>current_step\<close> is \<open>initial\<close> and
  its name, mobile and complaint details are unset.  The context object that was
  submitted is left in the step \<open>processing\<close> and is no longer the session's, so a
  repeated message meets the fresh context.  Every call of the API made by
  \<open>handle_step_by_step_collection\<close> and \<open>handle_smart_registration\<close> goes through
  \<open>process_complaint_registration\<close>, so the same holds for them.
\<close>

theorem submission_resets_context:
  "session_context (process_complaint_registration llm api c) = UserContext_new \<and>
   current_step UserContext_new = ''initial'' \<and>
   name UserContext_new = None \<and> mobile UserContext_new = None \<and>
   complaint_details UserContext_new = None \<and>
   current_step (context_after (process_complaint_registration llm api c)) = ''processing'' \<and>
   (api_calls (handle_step_by_step_collection llm api m c e) \<noteq> [] \<longrightarrow>
      session_context (handle_step_by_step_collection llm api m c e) = UserContext_new) \<and>
   (api_calls (handle_smart_registration llm api m c e) \<noteq> [] \<longrightarrow>
      session_context (handle_smart_registration llm api m c e) = UserContext_new)"
  using step_by_step_submission_resets [of llm api m c e]
    smart_registration_submission_resets [of llm api m c e]
  by (simp add: process_session_context process_context_after UserContext_new_def)

text \<open>
  A failed submission from the step \<open>collecting_details\<close>, and a successful one.
\<close>

theorem submission_resets_context_witness:
  "api_calls (handle_step_by_step_collection True api_down ''the printer jams daily''
     \<lparr>name = Some ''John Smith'', mobile = Some ''9876543210'', complaint_details = None,
      current_step = ''collecting_details''\<rparr> no_info) \<noteq> [] \<and>
   session_context (handle_step_by_step_collection True api_down ''the printer jams daily''
     \<lparr>name = Some ''John Smith'', mobile = Some ''9876543210'', complaint_details = None,
      current_step = ''collecting_details''\<rparr> no_info) = UserContext_new \<and>
   reply (handle_step_by_step_collection True api_down ''the printer jams daily''
     \<lparr>name = Some ''John Smith'', mobile = Some ''9876543210'', complaint_details = None,
      current_step = ''collecting_details''\<rparr> no_info) =
     RegistrationFailed ''Connection error: connection refused'' \<and>
   api_calls (handle_smart_registration True api_up ''the printer jams daily''
     \<lparr>name = Some ''John Smith'', mobile = Some ''9876543210'', complaint_details = None,
      current_step = ''collecting_details''\<rparr> no_info) \<noteq> [] \<and>
   session_context (handle_smart_registration True api_up ''the printer jams daily''
     \<lparr>name = Some ''John Smith'', mobile = Some ''9876543210'', complaint_details = None,
      current_step = ''collecting_details''\<rparr> no_info) = UserContext_new"
proof -
  have a: "api_calls (handle_step_by_step_collection True api_down ''the printer jams daily''
     \<lparr>name = Some ''John Smith'', mobile = Some ''9876543210'', complaint_details = None,
      current_step = ''collecting_details''\<rparr> no_info) \<noteq> []"
    by code_simp
  have b: "api_calls (handle_smart_registration True api_up ''the printer jams daily''
     \<lparr>name = Some ''John Smith'', mobile = Some ''9876543210'', complaint_details = None,
      current_step = ''collecting_details''\<rparr> no_info) \<noteq> []"
    by code_simp
  have c: "reply (handle_step_by_step_collection True api_down ''the printer jams daily''
     \<lparr>name = Some ''John Smith'', mobile = Some ''9876543210'', complaint_details = None,
      current_step = ''collecting_details''\<rparr> no_info) =
     RegistrationFailed ''Connection error: connection refused''"
    by code_simp
  show ?thesis
    using a b c
      submission_resets_context [of True api_down "\<lparr>name = Some ''John Smith'',
        mobile = Some ''9876543210'', complaint_details = None,
        current_step = ''collecting_details''\<rparr>" "''the printer jams daily''" no_info]
      submission_resets_context [of True api_up "\<lparr>name = Some ''John Smith'',
        mobile = Some ''9876543210'', complaint_details = None,
        current_step = ''collecting_details''\<rparr>" "''the printer jams daily''" no_info]
    by simp
qed



text \<open>The same rejection of \<open>help\<close> seen from \<open>handle_smart_registration\<close>.\<close>

lemma help_in_smart_registration:
  "handle_smart_registration True api_up ''help''
     (UserContext_new\<lparr>current_step := ''collecting_name''\<rparr>) (extract_information ''help'') =
   \<lparr>reply = InvalidNameFormat,
    context_after = UserContext_new\<lparr>current_step := ''collecting_name''\<rparr>,
    session_context = UserContext_new\<lparr>current_step := ''collecting_name''\<rparr>,
    api_calls = []\<rparr>"
  by code_simp

text \<open>
  \<open>handle_smart_registration\<close> first merges the extracted fields into the slots that
  are unset; it keeps \<open>current_step\<close> and every slot that was set.  While something is
  still missing, a rejected candidate gives the same validation prompt, with the merged
  context.
\<close>

lemma update_context_keeps:
  "current_step (update_context m c e) = current_step c"
  "truthy (name c) \<Longrightarrow> name (update_context m c e) = name c"
  "truthy (mobile c) \<Longrightarrow> mobile (update_context m c e) = mobile c"
  "truthy (complaint_details c) \<Longrightarrow> complaint_details (update_context m c e) = complaint_details c"
  by (simp_all add: update_context_def Let_def)

lemma smart_registration_validation_error:
  assumes "missing_info (update_context m c e) \<noteq> []"
  shows "current_step c = ''collecting_name'' \<Longrightarrow>
           \<not> validate_name (or_else (e_name e) (strip m)) \<Longrightarrow>
           handle_smart_registration llm api m c e =
             same_context InvalidNameFormat (update_context m c e)"
    and "current_step c = ''collecting_mobile'' \<Longrightarrow>
           \<not> validate_mobile (or_else (e_mobile e) (strip m)) \<Longrightarrow>
           handle_smart_registration llm api m c e =
             same_context InvalidMobileFormat (update_context m c e)"
    and "current_step c = ''collecting_details'' \<Longrightarrow> length (strip m) < 10 \<Longrightarrow>
           handle_smart_registration llm api m c e =
             same_context InsufficientDetails (update_context m c e)"
  using assms
  by (simp_all add: handle_smart_registration_def handle_step_by_step_collection_def Let_def
      update_context_keeps(1))




lemma dropWhile_keeps: "x \<in> set xs \<Longrightarrow> \<not> P x \<Longrightarrow> x \<in> set (dropWhile P xs)"
  by (induction xs) auto






lemma extract_information_fields:
  "e_mobile (extract_information m) = info_mobile mobile_patterns m"
  "e_name (extract_information m) = info_name m"
  by (simp_all add: extract_information_def)











section \<open>Properties of the extraction\<close>

text \<open>A match never moves backwards in the subject string.\<close>

lemma step_if_rest: "st' \<in> set (step_if p st) \<Longrightarrow> length (rest st') \<le> length (rest st)"
  by (cases "rest st") (auto simp: step_if_def split: if_splits)

lemma rep_rest:
  assumes f: "\<And>s s'. s' \<in> set (f s) \<Longrightarrow> length (rest s') \<le> length (rest s)"
  shows "s' \<in> set (rep f lo hi s) \<Longrightarrow> length (rest s') \<le> length (rest s)"
proof (induction hi arbitrary: lo s)
  case 0
  then show ?case by (simp split: if_splits)
next
  case (Suc hi)
  from Suc.prems consider (more) s1 where "s1 \<in> set (f s)" "s' \<in> set (rep f (lo - 1) hi s1)"
    | (stop) "s' = s"
    by (auto split: if_splits)
  then show ?case
  proof cases
    case more
    from Suc.IH [OF more(2)] f [OF more(1)] show ?thesis by simp
  next
    case stop
    then show ?thesis by simp
  qed
qed

lemma matches_rest: "st' \<in> set (matches ic r st) \<Longrightarrow> length (rest st') \<le> length (rest st)"
proof (induction r arbitrary: st st')
  case (Lit a)
  then show ?case by (simp add: step_if_rest)
next
  case (Cls items)
  then show ?case by (simp add: step_if_rest)
next
  case (Seq a b)
  from Seq.prems obtain s1 where "s1 \<in> set (matches ic a st)" "st' \<in> set (matches ic b s1)"
    by auto
  with Seq.IH show ?case by fastforce
next
  case (Alt a b)
  then show ?case by auto
next
  case (Rep r lo hi)
  from Rep.prems have "st' \<in> set (rep (matches ic r) lo
      (case hi of None \<Rightarrow> max lo (length (rest st)) | Some h \<Rightarrow> h) st)"
    by simp
  moreover have "\<And>s s'. s' \<in> set (matches ic r s) \<Longrightarrow> length (rest s') \<le> length (rest s)"
    by (rule Rep.IH)
  ultimately show ?case
    using rep_rest [of "matches ic r" st' lo _ st] by blast
next
  case (Group r)
  then show ?case by auto
next
  case Bol
  then show ?case by (simp split: if_splits)
next
  case Eol
  then show ?case by (simp split: if_splits)
next
  case WordB
  then show ?case by (simp split: if_splits)
qed

text \<open>A pattern \<open>(\+...)\<close>: the group of every match starts with the plus sign.\<close>

lemma plus_group_match:
  assumes "match_at False (Group (Seq (Lit CHR ''+'') r)) p s = Some m"
  shows "\<exists>t. group1 m = Some (CHR ''+'' # t)"
proof -
  let ?st = "\<lparr>prev = p, rest = s, cap = None\<rparr>"
  from assms obtain st' sts where ms: "matches False (Group (Seq (Lit CHR ''+'') r)) ?st = st' # sts"
    and m: "m = \<lparr>group0 = take (length s - length (rest st')) s, group1 = cap st'\<rparr>"
    by (auto simp: match_at_def split: list.splits)
  from ms have "st' \<in> set (matches False (Group (Seq (Lit CHR ''+'') r)) ?st)"
    by simp
  then obtain s1 s2 where s1: "s1 \<in> set (step_if (item_matches False (Single CHR ''+'')) ?st)"
    and s2: "s2 \<in> set (matches False r s1)"
    and st': "st' = s2\<lparr>cap := Some (take (length s - length (rest s2)) s)\<rparr>"
    by auto
  from s1 obtain cs where s: "s = CHR ''+'' # cs" and r1: "rest s1 = cs"
    by (auto simp: step_if_def split: list.splits if_splits)
  from matches_rest [OF s2] r1 have "length (rest s2) \<le> length cs"
    by simp
  then have "length s - length (rest s2) = Suc (length cs - length (rest s2))"
    using s by simp
  then have "take (length s - length (rest s2)) s = CHR ''+'' # take (length cs - length (rest s2)) cs"
    using s by simp
  with m st' show ?thesis by simp
qed

lemma findall_from_all:
  assumes Q: "\<And>p s m. match_at ic r p s = Some m \<Longrightarrow> Q m"
  shows "m \<in> set (findall_from ic r p s skip) \<Longrightarrow> Q m"
proof (induction s arbitrary: p skip)
  case Nil
  show ?case
  proof (cases "match_at ic r p []")
    case None
    with Nil show ?thesis by (cases "skip = 0") simp_all
  next
    case (Some m')
    with Nil have "m = m'" by (cases "skip = 0") simp_all
    with Some show ?thesis by (simp add: Q)
  qed
next
  case (Cons c cs)
  show ?case
  proof (cases "skip > 0")
    case True
    with Cons.prems have "m \<in> set (findall_from ic r (Some c) cs (skip - 1))"
      by simp
    then show ?thesis by (rule Cons.IH)
  next
    case False
    show ?thesis
    proof (cases "match_at ic r p (c # cs)")
      case None
      with Cons.prems False have "m \<in> set (findall_from ic r (Some c) cs 0)"
        by simp
      then show ?thesis by (rule Cons.IH)
    next
      case (Some m')
      with Cons.prems False consider "m = m'"
        | "m \<in> set (findall_from ic r (Some c) cs (length (group0 m') - 1))"
        by auto
      then show ?thesis
      proof cases
        case 1
        with Some show ?thesis by (simp add: Q)
      next
        case 2
        then show ?thesis by (rule Cons.IH)
      qed
    qed
  qed
qed

lemma strip_keeps: "c \<in> set s \<Longrightarrow> \<not> is_space c \<Longrightarrow> c \<in> set (strip s)"
  by (simp add: strip_def dropWhile_keeps)

lemma plus_not_mobile:
  "\<forall>m \<in> set ms. \<exists>t. group1 m = Some (CHR ''+'' # t) \<Longrightarrow> first_valid_mobile ms = None"
proof (induction ms)
  case Nil
  then show ?case by simp
next
  case (Cons m ms)
  then obtain t where t: "group1 m = Some (CHR ''+'' # t)" by auto
  have sp: "\<not> is_space CHR ''+''" "\<not> is_separator CHR ''+''" "\<not> is_digit CHR ''+''"
    by (simp_all add: is_space_def is_separator_def is_digit_def ord_def)
  have "CHR ''+'' \<in> set (strip (group_1 m))"
    using t sp(1) by (intro strip_keeps) (simp_all add: group_1_def)
  then have "CHR ''+'' \<in> set (remove_separators (strip (group_1 m)))"
    using sp(2) by (simp add: remove_separators_def)
  then have "\<not> isdigit (remove_separators (strip (group_1 m)))"
    using sp(3) by (auto simp: isdigit_def list_all_iff)
  with Cons show ?case by (simp add: Let_def)
qed

lemma plus_patterns_dead:
  "first_valid_mobile (re_findall False (Group (Seq (Lit CHR ''+'') r)) user_message) = None"
  unfolding re_findall_def
proof (rule plus_not_mobile, rule ballI)
  fix m
  assume "m \<in> set (findall_from False (Group (Seq (Lit CHR ''+'') r)) None user_message 0)"
  then show "\<exists>t. group1 m = Some (CHR ''+'' # t)"
    by (rule findall_from_all [rotated]) (rule plus_group_match)
qed

text \<open>
  The first two mobile patterns, \<open>(\+\d{1,4}[-.\s]?\d{10,14})\<close> and
  \<open>(\+\d{1,4}\s?\d{10,14})\<close>, never give a mobile: the cleaning keeps the plus sign and
  \<open>isdigit\<close> rejects it.  Every extracted mobile has 10 to 15 digits.
\<close>

lemma info_mobile_without_plus_patterns:
  "info_mobile mobile_patterns user_message = info_mobile (drop 2 mobile_patterns) user_message"
  by (simp add: mobile_patterns_def plus_patterns_dead)

lemma first_valid_mobile_digits:
  "first_valid_mobile ms = Some x \<Longrightarrow> 10 \<le> length x \<and> length x \<le> 15 \<and> isdigit x"
  by (induction ms) (auto simp: Let_def split: if_splits)

lemma info_mobile_digits:
  "info_mobile ps user_message = Some x \<Longrightarrow> 10 \<le> length x \<and> length x \<le> 15 \<and> isdigit x"
  by (induction ps) (auto split: option.splits dest: first_valid_mobile_digits)

text \<open>
  Claim C3 says that for a valid phone string, \<open>+\<close>-prefixed or not, the extracted
  mobile is its digit-only form.  For \<open>+919876543210\<close>, which \<open>validate_mobile\<close>
  accepts and whose digits are \<open>919876543210\<close>, the extracted mobile is the first ten
  digits only: the two \<open>+\<close> patterns match, but the \<open>+\<close> is not removed before the
  \<open>isdigit\<close> test, so their match is dropped, and the third pattern then takes ten
  digits out of the twelve.
\<close>

theorem extract_information_truncates_international:
  "validate_mobile ''+919876543210'' \<and>
   filter is_digit ''+919876543210'' = ''919876543210'' \<and>
   e_mobile (extract_information ''+919876543210'') = Some ''9198765432''"
proof -
  have "info_mobile mobile_patterns ''+919876543210'' = Some ''9198765432''"
    by code_simp
  moreover have "validate_mobile ''+919876543210'' \<and> filter is_digit ''+919876543210'' = ''919876543210''"
    by code_simp
  ultimately show ?thesis
    by (simp add: extract_information_fields)
qed

text \<open>
  Claim C7.  When the whole message, trimmed and lower-cased, is one of the non-name
  phrases \<open>yes, no, ok, okay, sure, hello, hi, help, what, how\<close>, the whole-message
  test does not give a name.
\<close>

theorem denylist_not_whole_message_name:
  "lower (strip m) \<in> set non_name_phrases \<Longrightarrow> whole_message_name m = None"
  by (simp add: whole_message_name_def Let_def)

theorem denylist_not_whole_message_name_witness:
  "lower (strip ''  Help '') \<in> set non_name_phrases \<and> whole_message_name ''  Help '' = None"
proof -
  have h: "lower (strip ''  Help '') \<in> set non_name_phrases"
    by code_simp
  from denylist_not_whole_message_name [OF h] h show ?thesis
    by simp
qed

text \<open>
  For the ten phrases themselves no pattern gives a name either; a word outside the
  list does become a name.
\<close>

lemma denylist_examples:
  "list_all (\<lambda>s. e_name (extract_information s) = None) non_name_phrases"
  "whole_message_name ''helps'' = Some ''Helps''"
  "whole_message_name ''sarah smith'' = Some ''Sarah Smith''"
  by (simp add: extract_information_fields, code_simp, code_simp, code_simp)


section \<open>Properties of the intent detection\<close>

text \<open>
  Claim C4, as amended.  \<open>smart_intent_detection\<close> decides top to bottom, the first
  rule that applies wins: a \<open>current_step\<close> other than \<open>initial\<close> gives
  \<open>continue_registration\<close> with confidence 0.9; otherwise an extracted complaint id
  gives \<open>check_status_by_id\<close> with 0.95; otherwise an extracted mobile together with
  one of the three words \<open>status, check, my complaints\<close> gives
  \<open>check_status_by_mobile\<close> with 0.9; otherwise a registration keyword gives
  \<open>register_complaint\<close> with 0.85; otherwise a status keyword (\<open>status, check, update,
  progress, ...\<close>) gives \<open>check_status\<close> with 0.8.  The extracted fields are returned
  as they are.
\<close>

theorem smart_intent_detection_order:
  "(current_step c \<noteq> ''initial'' \<longrightarrow>
      intent (smart_intent_detection m c) = ''continue_registration'' \<and>
      confidence (smart_intent_detection m c) = 9 / 10) \<and>
   (current_step c = ''initial'' \<and> truthy (e_complaint_id (extract_user_details m)) \<longrightarrow>
      intent (smart_intent_detection m c) = ''check_status_by_id'' \<and>
      confidence (smart_intent_detection m c) = 95 / 100) \<and>
   (current_step c = ''initial'' \<and> \<not> truthy (e_complaint_id (extract_user_details m)) \<and>
    truthy (e_mobile (extract_user_details m)) \<and> any_in mobile_status_words (lower m) \<longrightarrow>
      intent (smart_intent_detection m c) = ''check_status_by_mobile'' \<and>
      confidence (smart_intent_detection m c) = 9 / 10) \<and>
   (current_step c = ''initial'' \<and> \<not> truthy (e_complaint_id (extract_user_details m)) \<and>
    \<not> (truthy (e_mobile (extract_user_details m)) \<and> any_in mobile_status_words (lower m)) \<and>
    any_in registration_keywords (lower m) \<longrightarrow>
      intent (smart_intent_detection m c) = ''register_complaint'' \<and>
      confidence (smart_intent_detection m c) = 85 / 100) \<and>
   (current_step c = ''initial'' \<and> \<not> truthy (e_complaint_id (extract_user_details m)) \<and>
    \<not> (truthy (e_mobile (extract_user_details m)) \<and> any_in mobile_status_words (lower m)) \<and>
    \<not> any_in registration_keywords (lower m) \<and> any_in status_keywords (lower m) \<longrightarrow>
      intent (smart_intent_detection m c) = ''check_status'' \<and>
      confidence (smart_intent_detection m c) = 8 / 10) \<and>
   intent_extracted_info (smart_intent_detection m c) = extract_user_details m"
  by (simp add: smart_intent_detection_def Let_def)

lemma details_of_id: "extract_user_details ''CMP9B41CA0F'' =
    \<lparr>e_mobile = None, e_name = None, e_complaint_id = Some ''CMP9B41CA0F'', e_email = None,
     e_urgency = None\<rparr>"
  by code_simp

lemma details_of_status: "extract_user_details ''status of 9876543210'' =
    \<lparr>e_mobile = Some ''9876543210'', e_name = Some ''status of'', e_complaint_id = None,
     e_email = None, e_urgency = None\<rparr>"
  by code_simp

lemma details_of_broken: "extract_user_details ''my laptop is broken'' =
    \<lparr>e_mobile = None, e_name = Some ''my laptop is broken'', e_complaint_id = None,
     e_email = None, e_urgency = None\<rparr>"
  by code_simp

lemma details_of_update: "extract_user_details ''any update?'' =
    \<lparr>e_mobile = None, e_name = Some ''any update'', e_complaint_id = None,
     e_email = None, e_urgency = None\<rparr>"
  by code_simp

lemma keyword_facts:
  "any_in mobile_status_words (lower ''status of 9876543210'')"
  "any_in registration_keywords (lower ''my laptop is broken'')"
  "\<not> any_in registration_keywords (lower ''any update?'')"
  "any_in status_keywords (lower ''any update?'')"
  by code_simp+

text \<open>One message for each of the five rules.\<close>

theorem smart_intent_detection_order_witness:
  "current_step (UserContext_new\<lparr>current_step := ''collecting_name''\<rparr>) \<noteq> ''initial'' \<and>
   intent (smart_intent_detection ''John'' (UserContext_new\<lparr>current_step := ''collecting_name''\<rparr>)) =
     ''continue_registration'' \<and>
   current_step UserContext_new = ''initial'' \<and>
   truthy (e_complaint_id (extract_user_details ''CMP9B41CA0F'')) \<and>
   intent (smart_intent_detection ''CMP9B41CA0F'' UserContext_new) = ''check_status_by_id'' \<and>
   confidence (smart_intent_detection ''CMP9B41CA0F'' UserContext_new) = 95 / 100 \<and>
   intent_extracted_info (smart_intent_detection ''CMP9B41CA0F'' UserContext_new) =
     \<lparr>e_mobile = None, e_name = None, e_complaint_id = Some ''CMP9B41CA0F'', e_email = None,
      e_urgency = None\<rparr> \<and>
   intent (smart_intent_detection ''status of 9876543210'' UserContext_new) =
     ''check_status_by_mobile'' \<and>
   intent (smart_intent_detection ''my laptop is broken'' UserContext_new) = ''register_complaint'' \<and>
   intent (smart_intent_detection ''any update?'' UserContext_new) = ''check_status''"
proof -
  have s: "current_step UserContext_new = ''initial''"
    "current_step (UserContext_new\<lparr>current_step := ''collecting_name''\<rparr>) \<noteq> ''initial''"
    by (simp_all add: UserContext_new_def)
  show ?thesis
    using s keyword_facts
      smart_intent_detection_order [of "UserContext_new\<lparr>current_step := ''collecting_name''\<rparr>" "''John''"]
      smart_intent_detection_order [of UserContext_new "''CMP9B41CA0F''"]
      smart_intent_detection_order [of UserContext_new "''status of 9876543210''"]
      smart_intent_detection_order [of UserContext_new "''my laptop is broken''"]
      smart_intent_detection_order [of UserContext_new "''any update?''"]
    by (simp add: details_of_id details_of_status details_of_broken details_of_update truthy_def)
qed

lemma details_of_update_on: "extract_user_details ''any update on 9876543210'' =
    \<lparr>e_mobile = Some ''9876543210'', e_name = Some ''any update on'', e_complaint_id = None,
     e_email = None, e_urgency = None\<rparr>"
  by code_simp

lemma update_on_keywords:
  "\<not> any_in mobile_status_words (lower ''any update on 9876543210'')"
  "\<not> any_in registration_keywords (lower ''any update on 9876543210'')"
  "any_in status_keywords (lower ''any update on 9876543210'')"
  by code_simp+

text \<open>
  Claim C4, as stated, fails: the third rule does not fire for every status keyword.
  The message \<open>any update on 9876543210\<close> carries a phone number, which is extracted,
  and the status keyword \<open>update\<close>; the intent is \<open>check_status\<close> with confidence 0.8,
  not \<open>check_status_by_mobile\<close>.
\<close>

theorem status_keyword_with_mobile_counterexample:
  "current_step UserContext_new = ''initial'' \<and>
   e_complaint_id (extract_user_details ''any update on 9876543210'') = None \<and>
   e_mobile (extract_user_details ''any update on 9876543210'') = Some ''9876543210'' \<and>
   any_in status_keywords (lower ''any update on 9876543210'') \<and>
   intent (smart_intent_detection ''any update on 9876543210'' UserContext_new) = ''check_status'' \<and>
   confidence (smart_intent_detection ''any update on 9876543210'' UserContext_new) = 8 / 10"
  by (simp add: smart_intent_detection_def Let_def details_of_update_on update_on_keywords
      UserContext_new_def truthy_def)

end
